theory Spec2Isabelle
  imports Main "HOL-Library.Word"
begin

unbundle bit_operations_syntax

section \<open>Values shared by the library core and the ATA backend\<close>

text \<open>
  The error numbers are those of Linux' \<^verbatim>\<open>errno.h\<close>; the functions return them negated.
\<close>

definition EIO :: int where "EIO = 5"
definition ENXIO :: int where "ENXIO = 6"
definition ENOMEM :: int where "ENOMEM = 12"
definition ENODEV :: int where "ENODEV = 19"
definition EINVAL :: int where "EINVAL = 22"

text \<open>\<^verbatim>\<open>SSIZE_MAX\<close> of an LP64 target, where \<^verbatim>\<open>size_t\<close> and \<^verbatim>\<open>uint64_t\<close> are 64 bits wide.\<close>

definition SSIZE_MAX :: "64 word" where "SSIZE_MAX = 0x7FFFFFFFFFFFFFFF"

text \<open>
  A zone descriptor (\<^verbatim>\<open>struct zbc_zone\<close>). Type and condition are kept as the
  ordinals the device reports.
\<close>

record zbc_zone =
  zbz_type :: "8 word"
  zbz_condition :: "8 word"
  zbz_length :: "64 word"
  zbz_start :: "64 word"
  zbz_write_pointer :: "64 word"
  zbz_need_reset :: bool
  zbz_non_seq :: bool

datatype zbc_dev_type = ZBC_DT_UNKNOWN | ZBC_DT_BLOCK | ZBC_DT_SCSI | ZBC_DT_ATA | ZBC_DT_FAKE

datatype zbc_dev_model =
  ZBC_DM_DRIVE_UNKNOWN | ZBC_DM_HOST_AWARE | ZBC_DM_HOST_MANAGED | ZBC_DM_DRIVE_MANAGED
  | ZBC_DM_STANDARD

text \<open>The entries of the backend driver array \<^verbatim>\<open>zbc_drv[]\<close>.\<close>

datatype zbc_drv_id = Zbc_block_drv | Zbc_scsi_drv | Zbc_ata_drv | Zbc_fake_drv

text \<open>
  The device handle (\<^verbatim>\<open>struct zbc_device\<close> with its \<^verbatim>\<open>zbd_info\<close>): the fields the
  modelled functions read or write. \<open>zbd_test_mode\<close> is the value of the header macro
  \<^verbatim>\<open>zbc_test_mode(dev)\<close>; \<open>zbd_drv = None\<close> is the null driver pointer of a handle
  that no backend has accepted yet.
\<close>

record zbc_device =
  zbd_filename :: string
  zbd_drv :: "zbc_drv_id option"
  zbd_test_mode :: bool
  zbd_type :: zbc_dev_type
  zbd_model :: zbc_dev_model
  zbd_sectors :: "64 word"
  zbd_lblock_size :: "32 word"
  zbd_pblock_size :: "32 word"
  zbd_max_rw_sectors :: "64 word"
  zbd_logical_blocks :: "64 word"
  zbd_logical_block_size :: "32 word"
  zbd_physical_blocks :: "64 word"
  zbd_physical_block_size :: "32 word"

text \<open>
  An I/O vector entry (\<^verbatim>\<open>struct iovec\<close>): the address of the buffer and its length.
  The callers of the library give lengths in 512-byte sectors; the scratch vectors
  handed to a driver carry lengths in bytes.
\<close>

record iovec =
  iov_base :: "64 word"
  iov_len :: "64 word"

section \<open>What the missing header leaves open\<close>

text \<open>
  The header \<^verbatim>\<open>zbc.h\<close> is not among the sources. The constants and macros of it whose
  values neither the sources nor the specification fix are parameters of the model:
  the reporting-option mask \<^verbatim>\<open>zbc_ro_mask\<close>, the option bit \<^verbatim>\<open>ZBC_RO_PARTIAL\<close>, the
  driver restriction mask \<^verbatim>\<open>ZBC_O_DRV_MASK\<close> with the bit of the block driver, and
  whether the build defines \<^verbatim>\<open>HAVE_LINUX_BLKZONED_H\<close>. \<open>calloc_ok n\<close> says whether the
  allocation of an array of \<open>n\<close> zone descriptors succeeds, \<open>realpath\<close> is the
  C library's path resolution (\<open>Inl\<close> carries \<^verbatim>\<open>errno\<close>, which is not 0 then), and
  \<open>uninit_iovec\<close> is the content of a scratch vector entry that was never written.
\<close>

record zbc_env =
  zbc_ro_mask :: "32 word \<Rightarrow> 32 word"
  ZBC_RO_PARTIAL :: "32 word"
  ZBC_O_DRV_MASK :: "32 word"
  ZBC_O_DRV_BLOCK :: "32 word"
  HAVE_LINUX_BLKZONED_H :: bool
  calloc_ok :: "nat \<Rightarrow> bool"
  realpath :: "string \<Rightarrow> int + string"
  uninit_iovec :: iovec

section \<open>Backend drivers and the record of their invocations\<close>

text \<open>
  A backend driver (\<^verbatim>\<open>struct zbc_drv\<close>) over a backend state \<open>'s\<close>. Every operation
  takes the state and returns the new one.

  \<^item> \<open>zbd_open s filename flags\<close> returns the status and the handle stored through
    \<^verbatim>\<open>pdev\<close>, which the caller reads only when the status is 0.
  \<^item> \<open>zbd_report_zones s dev sector ro zones n\<close>: \<open>zones\<close> is \<open>False\<close> for a null
    buffer; \<open>n\<close> is the value of \<^verbatim>\<open>*nr_zones\<close> on entry. It returns the status, the
    descriptors stored through the buffer and the value left in \<^verbatim>\<open>*nr_zones\<close>. With
    a buffer the driver leaves in \<^verbatim>\<open>*nr_zones\<close> the number of descriptors it stored,
    so the model reads that number off the list.
  \<^item> \<open>zbd_preadv\<close> and \<open>zbd_pwritev\<close> take the scratch vector and the sector offset
    and return the number of sectors transferred, or a negative error.
\<close>

record 's zbc_drv =
  flag :: "32 word"
  zbd_open :: "'s \<Rightarrow> string \<Rightarrow> 32 word \<Rightarrow> (int \<times> zbc_device) \<times> 's"
  zbd_report_zones ::
    "'s \<Rightarrow> zbc_device \<Rightarrow> 64 word \<Rightarrow> 32 word \<Rightarrow> bool \<Rightarrow> 32 word
      \<Rightarrow> (int \<times> zbc_zone list \<times> 32 word) \<times> 's"
  zbd_preadv :: "'s \<Rightarrow> zbc_device \<Rightarrow> iovec list \<Rightarrow> 64 word \<Rightarrow> int \<times> 's"
  zbd_pwritev :: "'s \<Rightarrow> zbc_device \<Rightarrow> iovec list \<Rightarrow> 64 word \<Rightarrow> int \<times> 's"

text \<open>
  The world of a run: the backend state and the list of driver invocations so far,
  oldest first. The list is what makes ``the backend is not called'' and ``the next
  backend is tried'' statements about the model.
\<close>

datatype drv_call =
  Call_open zbc_drv_id string "32 word" int
  | Call_report_zones "64 word" "32 word" bool "32 word"
  | Call_preadv "iovec list" "64 word" int
  | Call_pwritev "iovec list" "64 word" int

record 's world =
  drv_state :: 's
  calls :: "drv_call list"

definition call_report_zones ::
  "'s zbc_drv \<Rightarrow> zbc_device \<Rightarrow> 's world \<Rightarrow> 64 word \<Rightarrow> 32 word \<Rightarrow> bool \<Rightarrow> 32 word
    \<Rightarrow> (int \<times> zbc_zone list \<times> 32 word) \<times> 's world" where
  "call_report_zones drv dev w sector ro zones n =
     (let (r, s') = zbd_report_zones drv (drv_state w) dev sector ro zones n
      in (r, \<lparr>drv_state = s', calls = calls w @ [Call_report_zones sector ro zones n]\<rparr>))"

definition call_preadv ::
  "'s zbc_drv \<Rightarrow> zbc_device \<Rightarrow> 's world \<Rightarrow> iovec list \<Rightarrow> 64 word \<Rightarrow> int \<times> 's world" where
  "call_preadv drv dev w iov offset =
     (let (ret, s') = zbd_preadv drv (drv_state w) dev iov offset
      in (ret, \<lparr>drv_state = s', calls = calls w @ [Call_preadv iov offset ret]\<rparr>))"

definition call_pwritev ::
  "'s zbc_drv \<Rightarrow> zbc_device \<Rightarrow> 's world \<Rightarrow> iovec list \<Rightarrow> 64 word \<Rightarrow> int \<times> 's world" where
  "call_pwritev drv dev w iov offset =
     (let (ret, s') = zbd_pwritev drv (drv_state w) dev iov offset
      in (ret, \<lparr>drv_state = s', calls = calls w @ [Call_pwritev iov offset ret]\<rparr>))"

definition call_open ::
  "(zbc_drv_id \<Rightarrow> 's zbc_drv) \<Rightarrow> zbc_drv_id \<Rightarrow> 's world \<Rightarrow> string \<Rightarrow> 32 word
    \<Rightarrow> (int \<times> zbc_device) \<times> 's world" where
  "call_open tbl d w path flags =
     (let (r, s') = zbd_open (tbl d) (drv_state w) path flags
      in (r, \<lparr>drv_state = s', calls = calls w @ [Call_open d path flags (fst r)]\<rparr>))"

section \<open>Opening a device\<close>

text \<open>
  The driver array \<^verbatim>\<open>zbc_drv[]\<close>, in the order of its initialiser. \<open>tbl\<close> gives the driver
  structure behind each entry.
\<close>

definition zbc_drv_list :: "zbc_drv_id list" where
  "zbc_drv_list = [Zbc_block_drv, Zbc_scsi_drv, Zbc_ata_drv, Zbc_fake_drv]"

text \<open>The set of allowed drivers that \<^verbatim>\<open>zbc_open\<close> computes from the flags.\<close>

definition zbc_open_allowed_drv :: "zbc_env \<Rightarrow> 32 word \<Rightarrow> 32 word" where
  "zbc_open_allowed_drv h flags =
     (let allowed_drv = flags AND ZBC_O_DRV_MASK h;
          allowed_drv = (if allowed_drv = 0 then ZBC_O_DRV_MASK h else allowed_drv)
      in if HAVE_LINUX_BLKZONED_H h then allowed_drv
         else allowed_drv AND NOT (ZBC_O_DRV_BLOCK h))"

text \<open>
  The loop of \<^verbatim>\<open>zbc_open\<close> over the remaining entries of the array; \<open>ret\<close> is the
  status so far. The handle is returned through \<^verbatim>\<open>pdev\<close> on success only.
\<close>

fun zbc_open_loop ::
  "(zbc_drv_id \<Rightarrow> 's zbc_drv) \<Rightarrow> zbc_drv_id list \<Rightarrow> 32 word \<Rightarrow> string \<Rightarrow> 32 word \<Rightarrow> int
    \<Rightarrow> 's world \<Rightarrow> (int \<times> zbc_device option) \<times> 's world" where
  "zbc_open_loop tbl [] allowed_drv path flags ret w = ((ret, None), w)"
| "zbc_open_loop tbl (d # ds) allowed_drv path flags ret w =
     (if flag (tbl d) AND allowed_drv = 0 then zbc_open_loop tbl ds allowed_drv path flags ret w
      else
        (let r = call_open tbl d w path flags; ret1 = fst (fst r); dev = snd (fst r)
         in if ret1 = 0 then ((0, Some (dev\<lparr>zbd_drv := Some d\<rparr>)), snd r)
            else if ret1 = - ENXIO then zbc_open_loop tbl ds allowed_drv path flags ret1 (snd r)
            else ((ret1, None), snd r)))"

definition zbc_open ::
  "zbc_env \<Rightarrow> (zbc_drv_id \<Rightarrow> 's zbc_drv) \<Rightarrow> 's world \<Rightarrow> string \<Rightarrow> 32 word
    \<Rightarrow> (int \<times> zbc_device option) \<times> 's world" where
  "zbc_open h tbl w filename flags =
     (case realpath h filename of
        Inl e \<Rightarrow> ((- e, None), w)
      | Inr path \<Rightarrow>
          zbc_open_loop tbl zbc_drv_list (zbc_open_allowed_drv h flags) path flags (- ENODEV) w)"

section \<open>The report iterator\<close>

text \<open>
  The loop of \<^verbatim>\<open>zbc_report_zones\<close>. \<open>zones\<close> is the filled part of the caller's array,
  so \<^verbatim>\<open>nz\<close> is its length; \<open>nr_zones\<close> is the value of \<^verbatim>\<open>*nr_zones\<close> on entry. The result
  is the status, the array contents and the final \<^verbatim>\<open>*nr_zones\<close>, which the error return
  leaves as it was.
\<close>

function zbc_report_zones_loop ::
  "zbc_env \<Rightarrow> 's zbc_drv \<Rightarrow> zbc_device \<Rightarrow> 32 word \<Rightarrow> 32 word \<Rightarrow> 's world \<Rightarrow> 64 word
    \<Rightarrow> zbc_zone list \<Rightarrow> (int \<times> zbc_zone list \<times> 32 word) \<times> 's world" where
  "zbc_report_zones_loop h drv dev ro nr_zones w sector zones =
     (if length zones < unat nr_zones then
        (let n = nr_zones - of_nat (length zones);
             r = call_report_zones drv dev w sector (zbc_ro_mask h ro OR ZBC_RO_PARTIAL h) True n;
             ret = fst (fst r); zs = fst (snd (fst r)); w' = snd r
         in if ret \<noteq> 0 then ((ret, zones @ zs, nr_zones), w')
            else if zs = [] then ((0, zones, of_nat (length zones)), w')
            else
              (let zones' = zones @ zs;
                   nz = length zones';
                   last_sector = zbz_start (zones' ! (nz - 1)) + zbz_length (zones' ! (nz - 1))
               in if last_sector \<ge> zbd_sectors dev then ((0, zones', of_nat nz), w')
                  else zbc_report_zones_loop h drv dev ro nr_zones w' last_sector zones'))
      else ((0, zones, of_nat (length zones)), w))"
  by pat_completeness auto
termination
  by (relation "measure (\<lambda>(h, drv, dev, ro, nr_zones, w, sector, zones).
        unat nr_zones - length zones)")
    (auto simp: length_greater_0_conv [symmetric] simp del: length_greater_0_conv)

declare zbc_report_zones_loop.simps [simp del]

definition zbc_report_zones ::
  "zbc_env \<Rightarrow> 's zbc_drv \<Rightarrow> zbc_device \<Rightarrow> 's world \<Rightarrow> 64 word \<Rightarrow> 32 word \<Rightarrow> bool \<Rightarrow> 32 word
    \<Rightarrow> (int \<times> zbc_zone list \<times> 32 word) \<times> 's world" where
  "zbc_report_zones h drv dev w sector ro zones nr_zones =
     (if \<not> zbd_test_mode dev \<and> sector \<ge> zbd_sectors dev then ((0, [], 0), w)
      else if \<not> zones then
        (let r = call_report_zones drv dev w sector (zbc_ro_mask h ro) False 0
         in ((fst (fst r), [], snd (snd (fst r))), snd r))
      else zbc_report_zones_loop h drv dev ro nr_zones w sector [])"

text \<open>
  \<^verbatim>\<open>zbc_list_zones\<close>. The result is the status, the array returned through \<^verbatim>\<open>pzones\<close>
  (\<open>None\<close> for a null pointer) and the count returned through \<^verbatim>\<open>pnr_zones\<close>; both are
  written on success only. The array is the one \<^verbatim>\<open>calloc\<close> returned, of as many
  zeroed descriptors as the count query gave, with the reported zones in front.
\<close>

definition zbc_report_nr_zones ::
  "zbc_env \<Rightarrow> 's zbc_drv \<Rightarrow> zbc_device \<Rightarrow> 's world \<Rightarrow> 64 word \<Rightarrow> 32 word
    \<Rightarrow> (int \<times> 32 word) \<times> 's world" where
  \<comment> \<open>Modelled from the spec: the helper is in the missing \<^verbatim>\<open>zbc.h\<close>; section 4.6 describes the
      count query as \<^verbatim>\<open>report_zones\<close> with a null buffer.\<close>
  "zbc_report_nr_zones h drv dev w sector ro =
     (let r = zbc_report_zones h drv dev w sector ro False 0
      in ((fst (fst r), snd (snd (fst r))), snd r))"

definition calloc_zone :: zbc_zone where
  "calloc_zone =
     \<lparr>zbz_type = 0, zbz_condition = 0, zbz_length = 0, zbz_start = 0, zbz_write_pointer = 0,
      zbz_need_reset = False, zbz_non_seq = False\<rparr>"

definition zbc_list_zones ::
  "zbc_env \<Rightarrow> 's zbc_drv \<Rightarrow> zbc_device \<Rightarrow> 's world \<Rightarrow> 64 word \<Rightarrow> 32 word
    \<Rightarrow> (int \<times> zbc_zone list option \<times> 32 word) \<times> 's world" where
  "zbc_list_zones h drv dev w sector ro =
     (let c = zbc_report_nr_zones h drv dev w sector (zbc_ro_mask h ro);
          ret = fst (fst c); nr_zones = snd (fst c); w1 = snd c
      in if ret < 0 then ((ret, None, 0), w1)
         else if nr_zones = 0 then ((0, None, nr_zones), w1)
         else if \<not> calloc_ok h (unat nr_zones) then ((- ENOMEM, None, 0), w1)
         else
           (let r = zbc_report_zones h drv dev w1 sector (zbc_ro_mask h ro) True nr_zones;
                ret = fst (fst r); zones = fst (snd (fst r)); nr_zones1 = snd (snd (fst r))
            in if ret \<noteq> 0 then ((ret, None, 0), snd r)
               else ((0, Some (zones @ replicate (unat nr_zones - length zones) calloc_zone),
                      nr_zones1), snd r)))"

section \<open>The vectored I/O splitter\<close>

definition zbc_iov_count :: "iovec list \<Rightarrow> 64 word" where
  \<comment> \<open>Modelled from the spec: the helper is in the missing \<^verbatim>\<open>zbc.h\<close>; section 4.7 computes the
      total as the sum of the lengths of the vector, here in \<^verbatim>\<open>size_t\<close>.\<close>
  "zbc_iov_count iov = sum_list (map iov_len iov)"

definition zbc_dev_sect_laligned :: "zbc_device \<Rightarrow> 64 word \<Rightarrow> bool" where
  \<comment> \<open>Modelled from the spec: the macro is in the missing \<^verbatim>\<open>zbc.h\<close>; section 3 asks for a
      sector that is a multiple of the logical block size, sectors being 512 bytes.\<close>
  "zbc_dev_sect_laligned dev sect = ((512 * unat sect) mod unat (zbd_lblock_size dev) = 0)"

definition zbc_dev_sect_paligned :: "zbc_device \<Rightarrow> 64 word \<Rightarrow> bool" where
  \<comment> \<open>Modelled from the spec: as \<open>zbc_dev_sect_laligned\<close>, for the physical block size.\<close>
  "zbc_dev_sect_paligned dev sect = ((512 * unat sect) mod unat (zbd_pblock_size dev) = 0)"

text \<open>
  \<^verbatim>\<open>zbc_iov_convert\<close>: the loop over the entries that remain, and the function. The
  result is the scratch vector \<^verbatim>\<open>_iov[0..j)\<close>; the function returns its length \<^verbatim>\<open>j\<close>.
  All quantities are \<^verbatim>\<open>size_t\<close> and wrap.
\<close>

fun zbc_iov_convert_loop :: "iovec list \<Rightarrow> 64 word \<Rightarrow> 64 word \<Rightarrow> 64 word \<Rightarrow> iovec list" where
  "zbc_iov_convert_loop [] size' offset count' = []"
| "zbc_iov_convert_loop (v # iov) size' offset count' =
     (if count' < size' then
        (let length' = push_bit 9 (iov_len v)
         in if offset \<ge> length' then zbc_iov_convert_loop iov size' (offset - length') count'
            else
              (let length1 = length' - offset;
                   length2 = (if count' + length1 > size' then size' - count' else length1)
               in \<lparr>iov_base = iov_base v + offset, iov_len = length2\<rparr>
                    # zbc_iov_convert_loop iov size' 0 (count' + length2)))
      else [])"

definition zbc_iov_convert :: "iovec list \<Rightarrow> 64 word \<Rightarrow> 64 word \<Rightarrow> iovec list" where
  "zbc_iov_convert iov sector_offset sectors =
     zbc_iov_convert_loop iov (push_bit 9 sectors) (push_bit 9 sector_offset) 0"

text \<open>
  The transfer loops of \<^verbatim>\<open>zbc_do_preadv\<close> and \<^verbatim>\<open>zbc_do_pwritev\<close>. The driver decides
  how far each round gets, and the counters wrap, so the loops are partial: \<open>None\<close> is a
  run that does not return. The result is the \<^verbatim>\<open>ssize_t\<close> returned and the world.
\<close>

partial_function (option) zbc_do_preadv_loop ::
  "'s zbc_drv \<Rightarrow> zbc_device \<Rightarrow> iovec list \<Rightarrow> 64 word \<Rightarrow> 64 word \<Rightarrow> 's world \<Rightarrow> 64 word \<Rightarrow> 64 word
    \<Rightarrow> (int \<times> 's world) option" where
  "zbc_do_preadv_loop drv dev iov count' max_count w offset rd_iov_offset =
     (if rd_iov_offset < count' then
        (let rd_iov_count = (if count' - rd_iov_offset > max_count then max_count
                             else count' - rd_iov_offset);
             rd_iov = zbc_iov_convert iov rd_iov_offset rd_iov_count;
             r = call_preadv drv dev w rd_iov offset;
             ret = fst r
         in if ret \<le> 0 then Some (if ret \<noteq> 0 then ret else - EIO, snd r)
            else zbc_do_preadv_loop drv dev iov count' max_count (snd r)
                   (offset + of_int ret) (rd_iov_offset + of_int ret))
      else Some (sint count', w))"

partial_function (option) zbc_do_pwritev_loop ::
  "'s zbc_drv \<Rightarrow> zbc_device \<Rightarrow> iovec list \<Rightarrow> 64 word \<Rightarrow> 64 word \<Rightarrow> 's world \<Rightarrow> 64 word \<Rightarrow> 64 word
    \<Rightarrow> (int \<times> 's world) option" where
  "zbc_do_pwritev_loop drv dev iov count' max_count w offset wr_iov_offset =
     (if wr_iov_offset < count' then
        (let wr_iov_count = (if count' - wr_iov_offset > max_count then max_count
                             else count' - wr_iov_offset);
             wr_iov = zbc_iov_convert iov wr_iov_offset wr_iov_count;
             r = call_pwritev drv dev w wr_iov offset;
             ret = fst r
         in if ret \<le> 0 then Some (if ret \<noteq> 0 then ret else - EIO, snd r)
            else zbc_do_pwritev_loop drv dev iov count' max_count (snd r)
                   (offset + of_int ret) (wr_iov_offset + of_int ret))
      else Some (sint count', w))"

text \<open>
  \<^verbatim>\<open>zbc_do_preadv\<close> and \<^verbatim>\<open>zbc_do_pwritev\<close>; \<open>iov\<close> is the caller's vector, so
  \<^verbatim>\<open>iovcnt\<close> is its length. The branch for a zero count in test mode hands the driver
  \<^verbatim>\<open>iovcnt\<close> entries of the scratch vector, none of which was written.
\<close>

definition zbc_do_preadv ::
  "zbc_env \<Rightarrow> 's zbc_drv \<Rightarrow> zbc_device \<Rightarrow> 's world \<Rightarrow> iovec list \<Rightarrow> 64 word
    \<Rightarrow> (int \<times> 's world) option" where
  "zbc_do_preadv h drv dev w iov offset =
     (let max_count = zbd_max_rw_sectors dev;
          count0 = zbc_iov_count iov
      in if push_bit 9 count0 > SSIZE_MAX then Some (- EINVAL, w)
         else if zbd_test_mode dev \<and> count0 = 0 then Some (- EINVAL, w)
         else if \<not> zbd_test_mode dev
                 \<and> (\<not> zbc_dev_sect_laligned dev count0 \<or> \<not> zbc_dev_sect_laligned dev offset)
           then Some (- EINVAL, w)
         else
           (let count1 = (if \<not> zbd_test_mode dev \<and> offset + count0 > zbd_sectors dev
                          then zbd_sectors dev - offset else count0)
            in if \<not> zbd_test_mode dev \<and> (count1 = 0 \<or> offset \<ge> zbd_sectors dev) then Some (0, w)
               else if zbd_test_mode dev \<and> count1 = 0
                 then Some (call_preadv drv dev w (replicate (length iov) (uninit_iovec h)) offset)
               else zbc_do_preadv_loop drv dev iov count1 max_count w offset 0))"

definition zbc_do_pwritev ::
  "zbc_env \<Rightarrow> 's zbc_drv \<Rightarrow> zbc_device \<Rightarrow> 's world \<Rightarrow> iovec list \<Rightarrow> 64 word
    \<Rightarrow> (int \<times> 's world) option" where
  "zbc_do_pwritev h drv dev w iov offset =
     (let max_count = zbd_max_rw_sectors dev;
          count0 = zbc_iov_count iov
      in if push_bit 9 count0 > SSIZE_MAX then Some (- EINVAL, w)
         else if zbd_test_mode dev \<and> count0 = 0 then Some (- EINVAL, w)
         else if \<not> zbd_test_mode dev
                 \<and> (\<not> zbc_dev_sect_paligned dev count0 \<or> \<not> zbc_dev_sect_paligned dev offset)
           then Some (- EINVAL, w)
         else
           (let count1 = (if \<not> zbd_test_mode dev \<and> offset + count0 > zbd_sectors dev
                          then zbd_sectors dev - offset else count0)
            in if \<not> zbd_test_mode dev \<and> (count1 = 0 \<or> offset \<ge> zbd_sectors dev) then Some (0, w)
               else if zbd_test_mode dev \<and> count1 = 0
                 then Some (call_pwritev drv dev w (replicate (length iov) (uninit_iovec h)) offset)
               else zbc_do_pwritev_loop drv dev iov count1 max_count w offset 0))"

text \<open>
  The entry points. \<^verbatim>\<open>zbc_pread\<close> and \<^verbatim>\<open>zbc_pwrite\<close> build a vector of one entry;
  \<^verbatim>\<open>zbc_preadv\<close> and \<^verbatim>\<open>zbc_pwritev\<close> refuse a null vector (\<open>None\<close>) and a count that is
  not positive.
\<close>

definition zbc_pread ::
  "zbc_env \<Rightarrow> 's zbc_drv \<Rightarrow> zbc_device \<Rightarrow> 's world \<Rightarrow> 64 word \<Rightarrow> 64 word \<Rightarrow> 64 word
    \<Rightarrow> (int \<times> 's world) option" where
  "zbc_pread h drv dev w buf count' offset =
     zbc_do_preadv h drv dev w [\<lparr>iov_base = buf, iov_len = count'\<rparr>] offset"

definition zbc_preadv ::
  "zbc_env \<Rightarrow> 's zbc_drv \<Rightarrow> zbc_device \<Rightarrow> 's world \<Rightarrow> iovec list option \<Rightarrow> 64 word
    \<Rightarrow> (int \<times> 's world) option" where
  "zbc_preadv h drv dev w iov offset =
     (case iov of
        None \<Rightarrow> Some (- EINVAL, w)
      | Some v \<Rightarrow> if length v = 0 then Some (- EINVAL, w) else zbc_do_preadv h drv dev w v offset)"

definition zbc_pwrite ::
  "zbc_env \<Rightarrow> 's zbc_drv \<Rightarrow> zbc_device \<Rightarrow> 's world \<Rightarrow> 64 word \<Rightarrow> 64 word \<Rightarrow> 64 word
    \<Rightarrow> (int \<times> 's world) option" where
  "zbc_pwrite h drv dev w buf count' offset =
     zbc_do_pwritev h drv dev w [\<lparr>iov_base = buf, iov_len = count'\<rparr>] offset"

definition zbc_pwritev ::
  "zbc_env \<Rightarrow> 's zbc_drv \<Rightarrow> zbc_device \<Rightarrow> 's world \<Rightarrow> iovec list option \<Rightarrow> 64 word
    \<Rightarrow> (int \<times> 's world) option" where
  "zbc_pwritev h drv dev w iov offset =
     (case iov of
        None \<Rightarrow> Some (- EINVAL, w)
      | Some v \<Rightarrow> if length v = 0 then Some (- EINVAL, w) else zbc_do_pwritev h drv dev w v offset)"

section \<open>The ATA backend: command blocks and payloads\<close>

text \<open>
  Command blocks, sense data and data buffers are memory regions read and written by
  index: functions from the offset to the byte.
\<close>

type_synonym bytes = "nat \<Rightarrow> 8 word"

datatype sg_dxfer = SG_DXFER_NONE | SG_DXFER_TO_DEV | SG_DXFER_FROM_DEV

datatype zbc_sg_cmd_kind = ZBC_SG_ATA16 | ZBC_SG_READ_CAPACITY

text \<open>
  A prepared command (\<^verbatim>\<open>zbc_sg_cmd_t\<close>): the command block, the sense buffer, the data
  buffer, the transfer direction and the residual of the transfer.
\<close>

record zbc_sg_cmd =
  cdb :: bytes
  sense_buf :: bytes
  out_buf :: bytes
  dxfer_direction :: sg_dxfer
  resid :: int

text \<open>
  The transport shim (\<^verbatim>\<open>zbc_sg.c\<close>, \<^verbatim>\<open>zbc_sg.h\<close>) and the C library are not among
  the sources; they are parameters of the model, over the state \<open>'s\<close> of the device.

  \<^item> \<open>zbc_sg_cmd_init s kind buf bufsz\<close> returns the status and the initialised
    command; \<open>buf\<close> is the caller's buffer (\<open>None\<close> for a null pointer).
  \<^item> \<open>zbc_sg_cmd_exec s dev cmd\<close> returns the status and the command after execution,
    with the sense data, the data buffer and the residual the kernel left in it.
  \<^item> \<open>posix_memalign s\<close> returns the status and the contents of the fresh buffer.
  \<^item> \<open>uninit\<close> is the content of memory the program has not initialised.
  \<^item> the three constants of the READ CAPACITY command come from the missing header.
\<close>

record 's zbc_sg =
  zbc_sg_cmd_init :: "'s \<Rightarrow> zbc_sg_cmd_kind \<Rightarrow> bytes option \<Rightarrow> 64 word \<Rightarrow> (int \<times> zbc_sg_cmd) \<times> 's"
  zbc_sg_cmd_exec :: "'s \<Rightarrow> zbc_device \<Rightarrow> zbc_sg_cmd \<Rightarrow> (int \<times> zbc_sg_cmd) \<times> 's"
  posix_memalign :: "'s \<Rightarrow> (int \<times> bytes) \<times> 's"
  uninit :: bytes
  ZBC_SG_READ_CAPACITY_CDB_OPCODE :: "8 word"
  ZBC_SG_READ_CAPACITY_CDB_SA :: "8 word"
  ZBC_SG_READ_CAPACITY_REPLY_LEN :: "32 word"

definition ZBC_SG_ATA16_CDB_OPCODE :: "8 word" where
  \<comment> \<open>Modelled from the spec: \<^verbatim>\<open>zbc_sg.h\<close> is missing; section 4.1 gives the opcode of the
      16-byte ATA pass-through command as 0x85.\<close>
  "ZBC_SG_ATA16_CDB_OPCODE = 0x85"


definition ZBC_ATA_IDENTIFY :: "8 word" where "ZBC_ATA_IDENTIFY = 0xEC"
definition ZBC_ATA_EXEC_DEV_DIAGNOSTIC :: "8 word" where "ZBC_ATA_EXEC_DEV_DIAGNOSTIC = 0x90"
definition ZBC_ATA_READ_LOG_DMA_EXT :: "8 word" where "ZBC_ATA_READ_LOG_DMA_EXT = 0x47"
definition ZBC_ATA_READ_DMA_EXT :: "8 word" where "ZBC_ATA_READ_DMA_EXT = 0x25"
definition ZBC_ATA_WRITE_DMA_EXT :: "8 word" where "ZBC_ATA_WRITE_DMA_EXT = 0x35"
definition ZBC_ATA_REPORT_ZONES_LOG_PAGE :: "8 word" where "ZBC_ATA_REPORT_ZONES_LOG_PAGE = 0x1A"

text \<open>The little-endian readers; \<open>p\<close> is the offset of the first byte in the buffer.\<close>

definition zbc_ata_get_word :: "bytes \<Rightarrow> nat \<Rightarrow> 16 word" where
  "zbc_ata_get_word buf p = ucast (buf p) OR push_bit 8 (ucast (buf (p + 1)))"



text \<open>
  The command block that \<^verbatim>\<open>zbc_ata_read_log\<close> fills, from the block \<open>c\<close> that the
  initialisation left. \<open>page\<close> is a C \<^verbatim>\<open>int\<close>, \<open>bufsz\<close> a \<^verbatim>\<open>size_t\<close>.
\<close>

definition zbc_ata_read_log_cdb :: "bytes \<Rightarrow> 8 word \<Rightarrow> int \<Rightarrow> 8 word \<Rightarrow> 64 word \<Rightarrow> bytes" where
  "zbc_ata_read_log_cdb c log page opt bufsz =
     (let c1 = c(0 := ZBC_SG_ATA16_CDB_OPCODE, 1 := push_bit 1 0x6 OR 0x01, 2 := 0x0e);
          c2 = (if opt \<noteq> 0 then c1(4 := opt) else c1)
      in c2(5 := ucast (drop_bit 8 (bufsz div 512) AND 0xff),
            6 := ucast ((bufsz div 512) AND 0xff),
            8 := log,
            9 := of_int (drop_bit 8 page AND 0xff),
            10 := of_int (page AND 0xff),
            14 := ZBC_ATA_READ_LOG_DMA_EXT))"

text \<open>
  \<^verbatim>\<open>zbc_ata_read_log\<close>: the status and the contents of the caller's buffer afterwards.
\<close>

definition zbc_ata_read_log ::
  "'s zbc_sg \<Rightarrow> zbc_device \<Rightarrow> 's \<Rightarrow> 8 word \<Rightarrow> int \<Rightarrow> 8 word \<Rightarrow> bytes \<Rightarrow> 64 word
    \<Rightarrow> (int \<times> bytes) \<times> 's" where
  "zbc_ata_read_log sg dev s log page opt buf bufsz =
     (let i = zbc_sg_cmd_init sg s ZBC_SG_ATA16 (Some buf) bufsz;
          ret = fst (fst i); cmd = snd (fst i); s1 = snd i
      in if ret \<noteq> 0 then ((ret, buf), s1)
         else
           (let cmd1 = cmd\<lparr>dxfer_direction := SG_DXFER_FROM_DEV,
                             cdb := zbc_ata_read_log_cdb (cdb cmd) log page opt bufsz\<rparr>;
                e = zbc_sg_cmd_exec sg s1 dev cmd1
            in ((fst (fst e), out_buf (snd (fst e))), snd e)))"

text \<open>\<^verbatim>\<open>zbc_ata_report_zones_pages\<close>: the buffer is a local array, not initialised.\<close>

definition zbc_ata_report_zones_pages :: "'s zbc_sg \<Rightarrow> zbc_device \<Rightarrow> 's \<Rightarrow> int \<times> 's" where
  "zbc_ata_report_zones_pages sg dev s =
     (let r = zbc_ata_read_log sg dev s 0x00 0 0 (uninit sg) 512;
          ret = fst (fst r); buf = snd (fst r)
      in if ret = 0
         then (uint (zbc_ata_get_word buf (unat ZBC_ATA_REPORT_ZONES_LOG_PAGE * 2)), snd r)
         else (ret, snd r))"

text \<open>The command block that \<^verbatim>\<open>zbc_ata_classify\<close> fills.\<close>

definition zbc_ata_classify_cdb :: "bytes \<Rightarrow> bytes" where
  "zbc_ata_classify_cdb c =
     c(0 := ZBC_SG_ATA16_CDB_OPCODE,
       1 := push_bit 1 0x3 OR 0x1,
       2 := push_bit 5 0x1,
       14 := ZBC_ATA_EXEC_DEV_DIAGNOSTIC)"

text \<open>
  \<^verbatim>\<open>zbc_ata_classify\<close>: the status and the handle. \<^verbatim>\<open>desc\<close> points at byte 8 of the
  sense buffer.
\<close>

definition zbc_ata_classify ::
  "'s zbc_sg \<Rightarrow> zbc_device \<Rightarrow> 's \<Rightarrow> (int \<times> zbc_device) \<times> 's" where
  "zbc_ata_classify sg dev s =
     (let i = zbc_sg_cmd_init sg s ZBC_SG_ATA16 None 0;
          ret = fst (fst i); cmd = snd (fst i); s1 = snd i
      in if ret \<noteq> 0 then ((ret, dev), s1)
         else
           (let cmd1 = cmd\<lparr>dxfer_direction := SG_DXFER_NONE,
                             cdb := zbc_ata_classify_cdb (cdb cmd)\<rparr>;
                e = zbc_sg_cmd_exec sg s1 dev cmd1;
                ret = fst (fst e); cmd2 = snd (fst e); s2 = snd e
            in if ret \<noteq> 0 then ((ret, dev), s2)
               else
                 (let dev1 = dev\<lparr>zbd_type := ZBC_DT_ATA\<rparr>;
                      desc = (\<lambda>k. sense_buf cmd2 (8 + k))
                  in if desc 9 = 0xCD \<and> desc 11 = 0xAB
                       then ((ret, dev1\<lparr>zbd_model := ZBC_DM_HOST_MANAGED\<rparr>), s2)
                     else if desc 9 = 0x00 \<and> desc 11 = 0x00 then
                       (let p = zbc_ata_report_zones_pages sg dev1 s2; ret = fst p
                        in if ret = 0 then ((ret, dev1\<lparr>zbd_model := ZBC_DM_DRIVE_MANAGED\<rparr>), snd p)
                           else if ret > 0
                             then ((ret, dev1\<lparr>zbd_model := ZBC_DM_HOST_AWARE\<rparr>), snd p)
                           else ((ret, dev1), snd p))
                     else ((- ENXIO, dev1), s2))))"

definition zbc_sg_cmd_get_int32 :: "bytes \<Rightarrow> nat \<Rightarrow> 32 word" where
  \<comment> \<open>Modelled from the spec: the helper is in the missing \<^verbatim>\<open>zbc_sg.h\<close>; section 4.1 says the
      READ CAPACITY reply is big-endian and decoded with explicit helpers.\<close>
  "zbc_sg_cmd_get_int32 buf p =
     push_bit 24 (ucast (buf p)) OR push_bit 16 (ucast (buf (p + 1)))
       OR push_bit 8 (ucast (buf (p + 2))) OR ucast (buf (p + 3))"

definition zbc_sg_cmd_get_int64 :: "bytes \<Rightarrow> nat \<Rightarrow> 64 word" where
  \<comment> \<open>Modelled from the spec: as \<open>zbc_sg_cmd_get_int32\<close>, for eight bytes.\<close>
  "zbc_sg_cmd_get_int64 buf p =
     push_bit 32 (ucast (zbc_sg_cmd_get_int32 buf p)) OR ucast (zbc_sg_cmd_get_int32 buf (p + 4))"

definition zbc_sg_cmd_set_int32 :: "bytes \<Rightarrow> nat \<Rightarrow> 32 word \<Rightarrow> bytes" where
  \<comment> \<open>Modelled from the spec: the big-endian writer that goes with \<open>zbc_sg_cmd_get_int32\<close>.\<close>
  "zbc_sg_cmd_set_int32 buf p v =
     buf(p := ucast (drop_bit 24 v), p + 1 := ucast (drop_bit 16 v),
         p + 2 := ucast (drop_bit 8 v), p + 3 := ucast v)"

text \<open>
  \<^verbatim>\<open>zbc_ata_get_info\<close>. \<^verbatim>\<open>1 << cmd.out_buf[13] & 0x0f\<close> parses as
  \<^verbatim>\<open>(1 << cmd.out_buf[13]) & 0x0f\<close>, which is 0 when byte 13 of the reply is 4 or more.
  The block sizes and counts are unsigned, so the test \<^verbatim>\<open><= 0\<close> is a test for 0. The
  number of physical blocks is a quotient by \<^verbatim>\<open>logical_per_physical\<close>: the division by 0
  has no result in C, and the function returns \<open>None\<close> there.
\<close>

definition zbc_ata_get_info ::
  "'s zbc_sg \<Rightarrow> zbc_device \<Rightarrow> 's \<Rightarrow> ((int \<times> zbc_device) \<times> 's) option" where
  "zbc_ata_get_info sg dev s =
     (let c = zbc_ata_classify sg dev s; ret = fst (fst c); dev1 = snd (fst c); s1 = snd c
      in if ret < 0 then Some ((ret, dev1), s1)
         else if zbd_model dev1 = ZBC_DM_DRIVE_MANAGED then Some ((- ENXIO, dev1), s1)
         else
           (let i = zbc_sg_cmd_init sg s1 ZBC_SG_READ_CAPACITY None
                      (ucast (ZBC_SG_READ_CAPACITY_REPLY_LEN sg));
                ret = fst (fst i); cmd = snd (fst i); s2 = snd i
            in if ret \<noteq> 0 then Some ((ret, dev1), s2)
               else
                 (let cmd1 = cmd\<lparr>cdb := zbc_sg_cmd_set_int32
                                    ((cdb cmd)(0 := ZBC_SG_READ_CAPACITY_CDB_OPCODE sg,
                                               1 := ZBC_SG_READ_CAPACITY_CDB_SA sg))
                                    10 (ZBC_SG_READ_CAPACITY_REPLY_LEN sg)\<rparr>;
                      e = zbc_sg_cmd_exec sg s2 dev1 cmd1;
                      ret = fst (fst e); cmd2 = snd (fst e); s3 = snd e
                  in if ret \<noteq> 0 then Some ((ret, dev1), s3)
                     else
                       (let dev2 = dev1\<lparr>zbd_logical_blocks := zbc_sg_cmd_get_int64 (out_buf cmd2) 0 + 1,
                                         zbd_logical_block_size := zbc_sg_cmd_get_int32 (out_buf cmd2) 8\<rparr>;
                            logical_per_physical = (2 ^ unat (out_buf cmd2 13) AND 0x0f :: int)
                        in if zbd_logical_block_size dev2 \<le> 0 then Some ((- EINVAL, dev2), s3)
                           else if zbd_logical_blocks dev2 = 0 then Some ((- EINVAL, dev2), s3)
                           else if logical_per_physical = 0 then None
                           else
                             Some ((ret, dev2\<lparr>zbd_physical_block_size :=
                                                 zbd_logical_block_size dev2 * of_int logical_per_physical,
                                               zbd_physical_blocks :=
                                                 zbd_logical_blocks dev2 div of_int logical_per_physical\<rparr>),
                                   s3)))))"

text \<open>
  The command blocks of \<^verbatim>\<open>zbc_ata_pread\<close> and \<^verbatim>\<open>zbc_ata_pwrite\<close>, from the block \<open>c\<close>
  that the initialisation left. \<open>lba_count\<close> is a \<^verbatim>\<open>uint32_t\<close>, \<open>lba\<close> a \<^verbatim>\<open>uint64_t\<close>;
  \<^verbatim>\<open>%\<close> is the remainder.
\<close>

definition zbc_ata_pread_cdb :: "bytes \<Rightarrow> 32 word \<Rightarrow> 64 word \<Rightarrow> bytes" where
  "zbc_ata_pread_cdb c lba_count lba =
     c(0 := ZBC_SG_ATA16_CDB_OPCODE,
       1 := push_bit 1 0x6 OR 0x01,
       2 := 0x1e,
       5 := ucast (drop_bit 8 lba_count mod 0xff),
       6 := ucast (lba_count mod 0xff),
       7 := ucast (drop_bit 24 lba AND 0xff),
       8 := ucast (lba AND 0xff),
       9 := ucast (drop_bit 32 lba AND 0xff),
       10 := ucast (drop_bit 8 lba AND 0xff),
       11 := ucast (drop_bit 40 lba AND 0xff),
       12 := ucast (drop_bit 16 lba AND 0xff),
       13 := push_bit 6 1,
       14 := ZBC_ATA_READ_DMA_EXT)"

definition zbc_ata_pwrite_cdb :: "bytes \<Rightarrow> 32 word \<Rightarrow> 64 word \<Rightarrow> bytes" where
  "zbc_ata_pwrite_cdb c lba_count lba =
     c(0 := ZBC_SG_ATA16_CDB_OPCODE,
       1 := push_bit 1 0x6 OR 0x01,
       2 := 0x16,
       5 := ucast (drop_bit 8 lba_count mod 0xff),
       6 := ucast (lba_count mod 0xff),
       7 := ucast (drop_bit 24 lba AND 0xff),
       8 := ucast (lba AND 0xff),
       9 := ucast (drop_bit 32 lba AND 0xff),
       10 := ucast (drop_bit 8 lba AND 0xff),
       11 := ucast (drop_bit 40 lba AND 0xff),
       12 := ucast (drop_bit 16 lba AND 0xff),
       13 := push_bit 6 1,
       14 := ZBC_ATA_WRITE_DMA_EXT)"

text \<open>
  \<^verbatim>\<open>zbc_ata_pread\<close> and \<^verbatim>\<open>zbc_ata_pwrite\<close>: the status (the number of logical blocks
  transferred on success) and the buffer afterwards. \<open>ret0\<close> is the value of the local
  \<^verbatim>\<open>ret\<close> before its first assignment, which the size check returns. The quotient is
  converted to the 32-bit \<^verbatim>\<open>int\<close>; \<^verbatim>\<open>zbc_ata_get_info\<close> has refused a logical block
  size of 0 when the device was opened.
\<close>

definition zbc_ata_pread ::
  "'s zbc_sg \<Rightarrow> zbc_device \<Rightarrow> 's \<Rightarrow> int \<Rightarrow> zbc_zone \<Rightarrow> bytes \<Rightarrow> 32 word \<Rightarrow> 64 word
    \<Rightarrow> (int \<times> bytes) \<times> 's" where
  "zbc_ata_pread sg dev s ret0 zone buf lba_count lba_ofst =
     (let sz = ucast lba_count * ucast (zbd_logical_block_size dev) :: 64 word;
          lba = zbz_start zone + lba_ofst
      in if lba_count > 65536 then ((ret0, buf), s)
         else
           (let i = zbc_sg_cmd_init sg s ZBC_SG_ATA16 (Some buf) sz;
                ret = fst (fst i); cmd = snd (fst i); s1 = snd i
            in if ret \<noteq> 0 then ((ret, buf), s1)
               else
                 (let cmd1 = cmd\<lparr>dxfer_direction := SG_DXFER_FROM_DEV,
                                   cdb := zbc_ata_pread_cdb (cdb cmd) lba_count lba\<rparr>;
                      e = zbc_sg_cmd_exec sg s1 dev cmd1;
                      ret = fst (fst e); cmd2 = snd (fst e)
                  in ((if ret = 0
                       then sint (ucast ((sz - of_int (resid cmd2))
                                           div ucast (zbd_logical_block_size dev)) :: 32 word)
                       else ret, out_buf cmd2), snd e))))"

definition zbc_ata_pwrite ::
  "'s zbc_sg \<Rightarrow> zbc_device \<Rightarrow> 's \<Rightarrow> int \<Rightarrow> zbc_zone \<Rightarrow> bytes \<Rightarrow> 32 word \<Rightarrow> 64 word
    \<Rightarrow> (int \<times> bytes) \<times> 's" where
  "zbc_ata_pwrite sg dev s ret0 zone buf lba_count lba_ofst =
     (let sz = ucast lba_count * ucast (zbd_logical_block_size dev) :: 64 word;
          lba = zbz_start zone + lba_ofst
      in if lba_count > 65536 then ((ret0, buf), s)
         else
           (let i = zbc_sg_cmd_init sg s ZBC_SG_ATA16 (Some buf) sz;
                ret = fst (fst i); cmd = snd (fst i); s1 = snd i
            in if ret \<noteq> 0 then ((ret, buf), s1)
               else
                 (let cmd1 = cmd\<lparr>dxfer_direction := SG_DXFER_TO_DEV,
                                   cdb := zbc_ata_pwrite_cdb (cdb cmd) lba_count lba\<rparr>;
                      e = zbc_sg_cmd_exec sg s1 dev cmd1;
                      ret = fst (fst e); cmd2 = snd (fst e)
                  in ((if ret = 0
                       then sint (ucast ((sz - of_int (resid cmd2))
                                           div ucast (zbd_logical_block_size dev)) :: 32 word)
                       else ret, out_buf cmd2), snd e))))"

subsection \<open>Report Zones over the log 0x1A\<close>











section \<open>Contracts of the collaborators\<close>



text \<open>
  The zones that a device reports from a sector on, out of the list \<open>Z\<close> of the zones
  that match the reporting options: those that end after the sector.
\<close>

definition zone_end :: "zbc_zone \<Rightarrow> nat" where
  "zone_end z = unat (zbz_start z) + unat (zbz_length z)"

definition zones_from :: "64 word \<Rightarrow> zbc_zone list \<Rightarrow> zbc_zone list" where
  "zones_from sector Z = filter (\<lambda>z. unat sector < zone_end z) Z"

text \<open>
  The rounds of a fill are not cut short: from the world \<open>w\<close> and the sector \<open>sector\<close>
  on, with \<open>nz\<close> descriptors stored, every round that the loop of \<^verbatim>\<open>zbc_report_zones\<close>
  runs for a request of \<open>nr_zones\<close> zones succeeds and reports at least one zone and at
  most the zones still missing, and the last zone of a round ends below the capacity
  as long as zones are missing. Nothing is asked of the driver outside these rounds.
\<close>

function zbc_report_zones_fill_rounds ::
  "zbc_env \<Rightarrow> 's zbc_drv \<Rightarrow> zbc_device \<Rightarrow> 32 word \<Rightarrow> 32 word \<Rightarrow> 's world \<Rightarrow> 64 word \<Rightarrow> nat
    \<Rightarrow> bool" where
  "zbc_report_zones_fill_rounds h drv dev ro nr_zones w sector nz =
     (if nz < unat nr_zones then
        (let r = call_report_zones drv dev w sector (zbc_ro_mask h ro OR ZBC_RO_PARTIAL h) True
                   (nr_zones - of_nat nz);
             ret = fst (fst r); zs = fst (snd (fst r));
             last_sector = zbz_start (last zs) + zbz_length (last zs)
         in if ret = 0 \<and> zs \<noteq> [] \<and> nz + length zs \<le> unat nr_zones then
              (if nz + length zs < unat nr_zones then
                 (if last_sector < zbd_sectors dev
                  then zbc_report_zones_fill_rounds h drv dev ro nr_zones (snd r) last_sector
                         (nz + length zs)
                  else False)
               else True)
            else False)
      else True)"
  by pat_completeness auto
termination
  by (relation "measure (\<lambda>(h, drv, dev, ro, nr_zones, w, sector, nz). unat nr_zones - nz)")
    (auto simp: length_greater_0_conv [symmetric] simp del: length_greater_0_conv)

declare zbc_report_zones_fill_rounds.simps [simp del]

text \<open>
  The rounds of the report iterator as section 4.6 describes them, from the start
  sector \<open>sector\<close> with the zones \<open>acc\<close> accumulated so far, for a request of \<open>nr_zones\<close>
  zones: the iteration stops when the count is reached, when the driver fails, when it
  returns no zone, or when the last zone returned ends at or past the capacity;
  otherwise the next round starts where that zone ends. Every round asks the driver for
  the zones that are still missing, with the bit \<^verbatim>\<open>ZBC_RO_PARTIAL\<close> added to the masked
  options.
\<close>

inductive report_rounds ::
  "zbc_env \<Rightarrow> 's zbc_drv \<Rightarrow> zbc_device \<Rightarrow> 32 word \<Rightarrow> 32 word \<Rightarrow> 's world \<Rightarrow> 64 word
    \<Rightarrow> zbc_zone list \<Rightarrow> (int \<times> zbc_zone list \<times> 32 word) \<times> 's world \<Rightarrow> bool"
  for h :: zbc_env and drv :: "'s zbc_drv" and dev :: zbc_device and ro :: "32 word"
    and nr_zones :: "32 word"
where
  count_reached:
    "\<not> length acc < unat nr_zones \<Longrightarrow>
     report_rounds h drv dev ro nr_zones w sector acc ((0, acc, of_nat (length acc)), w)"
| driver_error:
    "length acc < unat nr_zones \<Longrightarrow>
     call_report_zones drv dev w sector (zbc_ro_mask h ro OR ZBC_RO_PARTIAL h) True
         (nr_zones - of_nat (length acc)) = ((ret, zs, n), w') \<Longrightarrow>
     ret \<noteq> 0 \<Longrightarrow>
     report_rounds h drv dev ro nr_zones w sector acc ((ret, acc @ zs, nr_zones), w')"
| no_zone_returned:
    "length acc < unat nr_zones \<Longrightarrow>
     call_report_zones drv dev w sector (zbc_ro_mask h ro OR ZBC_RO_PARTIAL h) True
         (nr_zones - of_nat (length acc)) = ((0, [], n), w') \<Longrightarrow>
     report_rounds h drv dev ro nr_zones w sector acc ((0, acc, of_nat (length acc)), w')"
| capacity_reached:
    "length acc < unat nr_zones \<Longrightarrow>
     call_report_zones drv dev w sector (zbc_ro_mask h ro OR ZBC_RO_PARTIAL h) True
         (nr_zones - of_nat (length acc)) = ((0, zs, n), w') \<Longrightarrow>
     zs \<noteq> [] \<Longrightarrow>
     zbd_sectors dev \<le> zbz_start (last zs) + zbz_length (last zs) \<Longrightarrow>
     report_rounds h drv dev ro nr_zones w sector acc
       ((0, acc @ zs, of_nat (length (acc @ zs))), w')"
| next_round:
    "length acc < unat nr_zones \<Longrightarrow>
     call_report_zones drv dev w sector (zbc_ro_mask h ro OR ZBC_RO_PARTIAL h) True
         (nr_zones - of_nat (length acc)) = ((0, zs, n), w') \<Longrightarrow>
     zs \<noteq> [] \<Longrightarrow>
     zbz_start (last zs) + zbz_length (last zs) < zbd_sectors dev \<Longrightarrow>
     report_rounds h drv dev ro nr_zones w' (zbz_start (last zs) + zbz_length (last zs))
       (acc @ zs) res \<Longrightarrow>
     report_rounds h drv dev ro nr_zones w sector acc res"

text \<open>
  The world after the drivers \<open>ds\<close> have been passed over by \<^verbatim>\<open>zbc_open\<close>, each being
  either outside the allowed set, and then not invoked, or invoked and answering
  \<open>- ENXIO\<close>; \<open>None\<close> when one of them answers otherwise.
\<close>

fun zbc_open_declined ::
  "(zbc_drv_id \<Rightarrow> 's zbc_drv) \<Rightarrow> zbc_drv_id list \<Rightarrow> 32 word \<Rightarrow> string \<Rightarrow> 32 word \<Rightarrow> 's world
    \<Rightarrow> 's world option" where
  "zbc_open_declined tbl [] allowed_drv path flags w = Some w"
| "zbc_open_declined tbl (d # ds) allowed_drv path flags w =
     (if flag (tbl d) AND allowed_drv = 0 then zbc_open_declined tbl ds allowed_drv path flags w
      else if fst (fst (call_open tbl d w path flags)) = - ENXIO
        then zbc_open_declined tbl ds allowed_drv path flags (snd (call_open tbl d w path flags))
      else None)"

text \<open>
  The sum of the lengths of a vector, as a number: sectors for a caller's vector, bytes
  for a scratch vector. The sectors that the driver reported as transferred over the
  read and write calls of a record.
\<close>

definition iov_total :: "iovec list \<Rightarrow> nat" where
  "iov_total iov = sum_list (map (\<lambda>v. unat (iov_len v)) iov)"

fun sectors_transferred :: "drv_call list \<Rightarrow> int" where
  "sectors_transferred [] = 0"
| "sectors_transferred (Call_preadv iov offset ret # cs) = ret + sectors_transferred cs"
| "sectors_transferred (Call_pwritev iov offset ret # cs) = ret + sectors_transferred cs"
| "sectors_transferred (c # cs) = sectors_transferred cs"

text \<open>
  The rounds of a transfer make progress: from the world \<open>w\<close>, the sector \<open>offset\<close> and
  the position \<open>rd_iov_offset\<close> in the caller's vector on, every round that the loop of
  \<^verbatim>\<open>zbc_do_preadv\<close> runs for a transfer of \<open>count'\<close> sectors gets from the driver at least
  one sector and at most the sectors it asked for in that round. Likewise for the
  rounds of \<^verbatim>\<open>zbc_do_pwritev\<close>. Nothing is asked of the driver outside these rounds.
\<close>

lemma unat_of_int_nonneg:
  "0 \<le> (i :: int) \<Longrightarrow> i < 2 ^ 64 \<Longrightarrow> unat (word_of_int i :: 64 word) = nat i"
proof -
  assume a: "0 \<le> i" "i < 2 ^ 64"
  then have "word_of_int i = (word_of_nat (nat i) :: 64 word)" by simp
  moreover have "nat i < 2 ^ 64" using a by (simp add: nat_less_iff)
  ultimately show ?thesis by (simp add: unat_of_nat del: of_nat_nat)
qed

lemma round_advance:
  fixes count' max_count rd_iov_offset :: "64 word"
  assumes less: "rd_iov_offset < count'" and pos: "0 < ret"
    and le: "ret \<le> int (unat (if count' - rd_iov_offset > max_count then max_count
                                else count' - rd_iov_offset))"
  shows "unat (rd_iov_offset + of_int ret) = unat rd_iov_offset + nat ret"
    and "unat rd_iov_offset + nat ret \<le> unat count'"
proof -
  define rd_iov_count where
    "rd_iov_count = (if count' - rd_iov_offset > max_count then max_count
                     else count' - rd_iov_offset)"
  have rest: "unat (count' - rd_iov_offset) = unat count' - unat rd_iov_offset"
    using less by (simp add: unat_sub word_less_nat_alt word_le_nat_alt)
  have win: "unat rd_iov_count \<le> unat count' - unat rd_iov_offset"
    using rest by (auto simp add: rd_iov_count_def word_less_nat_alt not_less)
  have "unat rd_iov_count < 2 ^ 64"
    using unsigned_less [of rd_iov_count, where ?'a = nat] by simp
  then have "int (unat rd_iov_count) < 2 ^ 64"
    by (metis of_nat_less_iff of_nat_numeral of_nat_power)
  with le have "ret < 2 ^ 64" unfolding rd_iov_count_def by linarith
  then have r64: "unat (word_of_int ret :: 64 word) = nat ret"
    using pos by (intro unat_of_int_nonneg) simp_all
  have natr: "nat ret \<le> unat rd_iov_count"
    using le pos unfolding rd_iov_count_def by (simp add: nat_le_iff del: of_nat_unat)
  have "unat rd_iov_offset < unat count'" using less by (simp add: word_less_nat_alt)
  with natr win show bound: "unat rd_iov_offset + nat ret \<le> unat count'" by linarith
  then show "unat (rd_iov_offset + of_int ret) = unat rd_iov_offset + nat ret"
    using unsigned_less [of count', where ?'a = nat] r64
    by (subst unat_add_lem [THEN iffD1]) simp_all
qed

function zbc_preadv_rounds ::
  "'s zbc_drv \<Rightarrow> zbc_device \<Rightarrow> iovec list \<Rightarrow> 64 word \<Rightarrow> 64 word \<Rightarrow> 's world \<Rightarrow> 64 word \<Rightarrow> 64 word
    \<Rightarrow> bool" where
  "zbc_preadv_rounds drv dev iov count' max_count w offset rd_iov_offset =
     (if rd_iov_offset < count' then
        (let rd_iov_count = (if count' - rd_iov_offset > max_count then max_count
                             else count' - rd_iov_offset);
             r = call_preadv drv dev w (zbc_iov_convert iov rd_iov_offset rd_iov_count) offset;
             ret = fst r
         in if 0 < ret \<and> ret \<le> int (unat rd_iov_count)
            then zbc_preadv_rounds drv dev iov count' max_count (snd r)
                   (offset + of_int ret) (rd_iov_offset + of_int ret)
            else False)
      else True)"
  by pat_completeness auto
termination
proof (relation "measure (\<lambda>(drv, dev, iov, count', max_count, w, offset, rd_iov_offset).
          unat count' - unat rd_iov_offset)", goal_cases)
  case 1
  show ?case by simp
next
  case (2 drv dev iov count' max_count w offset rd_iov_offset rd_iov_count r ret)
  have "0 < ret" "ret \<le> int (unat (if count' - rd_iov_offset > max_count then max_count
                                    else count' - rd_iov_offset))"
    using 2 by simp_all
  note adv = round_advance [OF 2(1) this]
  have "0 < nat ret" using \<open>0 < ret\<close> by simp
  with adv show ?case by simp
qed

declare zbc_preadv_rounds.simps [simp del]

function zbc_pwritev_rounds ::
  "'s zbc_drv \<Rightarrow> zbc_device \<Rightarrow> iovec list \<Rightarrow> 64 word \<Rightarrow> 64 word \<Rightarrow> 's world \<Rightarrow> 64 word \<Rightarrow> 64 word
    \<Rightarrow> bool" where
  "zbc_pwritev_rounds drv dev iov count' max_count w offset wr_iov_offset =
     (if wr_iov_offset < count' then
        (let wr_iov_count = (if count' - wr_iov_offset > max_count then max_count
                             else count' - wr_iov_offset);
             r = call_pwritev drv dev w (zbc_iov_convert iov wr_iov_offset wr_iov_count) offset;
             ret = fst r
         in if 0 < ret \<and> ret \<le> int (unat wr_iov_count)
            then zbc_pwritev_rounds drv dev iov count' max_count (snd r)
                   (offset + of_int ret) (wr_iov_offset + of_int ret)
            else False)
      else True)"
  by pat_completeness auto
termination
proof (relation "measure (\<lambda>(drv, dev, iov, count', max_count, w, offset, wr_iov_offset).
          unat count' - unat wr_iov_offset)", goal_cases)
  case 1
  show ?case by simp
next
  case (2 drv dev iov count' max_count w offset wr_iov_offset wr_iov_count r ret)
  have "0 < ret" "ret \<le> int (unat (if count' - wr_iov_offset > max_count then max_count
                                    else count' - wr_iov_offset))"
    using 2 by simp_all
  note adv = round_advance [OF 2(1) this]
  have "0 < nat ret" using \<open>0 < ret\<close> by simp
  with adv show ?case by simp
qed

declare zbc_pwritev_rounds.simps [simp del]

section \<open>Sample devices\<close>

text \<open>
  Concrete instances on which the theorems below are exercised: a header with the
  option values of the library's public header, a handle of a device of 2048 sectors
  with 512-byte blocks, and an ATA transport that answers the diagnostic command with
  a given signature and serves the log directory and the Report Zones log from given
  byte images.
\<close>

definition sample_env :: zbc_env where
  "sample_env =
     \<lparr>zbc_ro_mask = (\<lambda>ro. ro AND 0x3f),
      ZBC_RO_PARTIAL = 0x80,
      ZBC_O_DRV_MASK = 0x0f000000,
      ZBC_O_DRV_BLOCK = 0x01000000,
      HAVE_LINUX_BLKZONED_H = True,
      calloc_ok = (\<lambda>n. True),
      realpath = (\<lambda>f. Inr f),
      uninit_iovec = \<lparr>iov_base = 0, iov_len = 0\<rparr>\<rparr>"

definition sample_dev :: zbc_device where
  "sample_dev =
     \<lparr>zbd_filename = ''/dev/sdz'',
      zbd_drv = None,
      zbd_test_mode = False,
      zbd_type = ZBC_DT_UNKNOWN,
      zbd_model = ZBC_DM_DRIVE_UNKNOWN,
      zbd_sectors = 2048,
      zbd_lblock_size = 512,
      zbd_pblock_size = 4096,
      zbd_max_rw_sectors = 16,
      zbd_logical_blocks = 2048,
      zbd_logical_block_size = 512,
      zbd_physical_blocks = 256,
      zbd_physical_block_size = 4096\<rparr>"

definition sample_cmd :: "bytes option \<Rightarrow> zbc_sg_cmd" where
  "sample_cmd buf =
     \<lparr>cdb = (\<lambda>k. 0),
      sense_buf = (\<lambda>k. 0),
      out_buf = (case buf of None \<Rightarrow> (\<lambda>k. 0) | Some b \<Rightarrow> b),
      dxfer_direction = SG_DXFER_NONE,
      resid = 0\<rparr>"

definition sample_sg :: "8 word \<Rightarrow> 8 word \<Rightarrow> bytes \<Rightarrow> bytes \<Rightarrow> unit zbc_sg" where
  "sample_sg sig9 sig11 directory zone_log =
     \<lparr>zbc_sg_cmd_init = (\<lambda>s kind buf bufsz. ((0, sample_cmd buf), s)),
      zbc_sg_cmd_exec = (\<lambda>s dev cmd.
         if cdb cmd 14 = 0x90
           then ((0, cmd\<lparr>sense_buf := (\<lambda>k. if k = 17 then sig9 else if k = 19 then sig11 else 0)\<rparr>), s)
         else if cdb cmd 14 = 0x47 then
           ((0, cmd\<lparr>out_buf :=
                       (if cdb cmd 8 = 0 then directory
                        else (\<lambda>k. zone_log (512 * (256 * unat (cdb cmd 9) + unat (cdb cmd 10)) + k)))\<rparr>),
            s)
         else ((- EIO, cmd), s)),
      posix_memalign = (\<lambda>s. ((0, (\<lambda>k. 0)), s)),
      uninit = (\<lambda>k. 0),
      ZBC_SG_READ_CAPACITY_CDB_OPCODE = 0x9E,
      ZBC_SG_READ_CAPACITY_CDB_SA = 0x10,
      ZBC_SG_READ_CAPACITY_REPLY_LEN = 32\<rparr>"

text \<open>
  The image of a Report Zones log that declares \<open>nz\<close> zones (\<open>nz < 256\<close>): zone \<open>k\<close> is
  a sequential-write-required zone of 256 sectors that starts at sector \<open>256 * k\<close>.
  The image of a log directory that gives the log 0x1A \<open>n\<close> pages (\<open>n < 65536\<close>), in the
  two bytes of its entry.
\<close>

definition sample_zone_log :: "nat \<Rightarrow> bytes" where
  "sample_zone_log nz i =
     (if i = 0 then of_nat nz
      else if i < 64 then 0
      else if i mod 64 = 0 then 0x02
      else if i mod 64 = 1 then 0x10
      else if i mod 64 = 9 then 0x01
      else if i mod 64 = 17 \<or> i mod 64 = 25 then of_nat (i div 64 - 1)
      else 0)"

definition sample_directory :: "nat \<Rightarrow> bytes" where
  "sample_directory n i =
     (if i = 52 then of_nat n else if i = 53 then of_nat (n div 256) else 0)"

definition sample_zone :: "nat \<Rightarrow> zbc_zone" where
  "sample_zone k =
     \<lparr>zbz_type = 0x02, zbz_condition = 0x01, zbz_length = 256, zbz_start = 256 * of_nat k,
      zbz_write_pointer = 256 * of_nat k, zbz_need_reset = False, zbz_non_seq = False\<rparr>"

text \<open>
  A driver that serves the zones \<open>Z\<close>, at most \<open>lim\<close> descriptors per call, and transfers
  what the scratch vector describes, at most \<open>lim\<close> sectors per call. Its state is the
  number of calls it has served.
\<close>

definition sample_drv :: "zbc_zone list \<Rightarrow> nat \<Rightarrow> nat zbc_drv" where
  "sample_drv Z lim =
     \<lparr>flag = 0x08000000,
      zbd_open = (\<lambda>s path flags. ((0, sample_dev\<lparr>zbd_filename := path\<rparr>), Suc s)),
      zbd_report_zones = (\<lambda>s dev sector ro zones n.
         if zones
         then ((0, take (min (unat n) lim) (zones_from sector Z),
                of_nat (length (take (min (unat n) lim) (zones_from sector Z)))), Suc s)
         else ((0, [], of_nat (length (zones_from sector Z))), Suc s)),
      zbd_preadv = (\<lambda>s dev iov offset. (int (min lim (iov_total iov div 512)), Suc s)),
      zbd_pwritev = (\<lambda>s dev iov offset. (int (min lim (iov_total iov div 512)), Suc s))\<rparr>"

definition sample_world :: "nat world" where
  "sample_world = \<lparr>drv_state = 0, calls = []\<rparr>"

text \<open>
  A driver table in which the driver \<open>d\<close> answers an open with the status \<open>st d\<close>, with
  the driver flags of the library's public header.
\<close>

definition sample_tbl :: "(zbc_drv_id \<Rightarrow> int) \<Rightarrow> zbc_drv_id \<Rightarrow> nat zbc_drv" where
  "sample_tbl st d =
     (sample_drv [] 1)
       \<lparr>flag := (case d of Zbc_block_drv \<Rightarrow> 0x01000000 | Zbc_scsi_drv \<Rightarrow> 0x02000000
                  | Zbc_ata_drv \<Rightarrow> 0x04000000 | Zbc_fake_drv \<Rightarrow> 0x08000000),
        zbd_open := (\<lambda>s path flags. ((st d, sample_dev\<lparr>zbd_filename := path\<rparr>), Suc s))\<rparr>"

text \<open>The zones of the sample device: eight zones of 256 sectors.\<close>

definition sample_zones :: "zbc_zone list" where
  "sample_zones = map sample_zone [0..<8]"

section \<open>Facts about the sample devices\<close>

lemma sample_sg_init:
  "zbc_sg_cmd_init (sample_sg a b d z) s kind buf bufsz = ((0, sample_cmd buf), s)"
  by (simp add: sample_sg_def)


lemma sample_sg_diagnostic:
  "zbc_sg_cmd_exec (sample_sg a b d z) s dev
     (sample_cmd None\<lparr>dxfer_direction := SG_DXFER_NONE,
                       cdb := zbc_ata_classify_cdb (cdb (sample_cmd None))\<rparr>)
   = ((0, sample_cmd None
            \<lparr>dxfer_direction := SG_DXFER_NONE,
             cdb := zbc_ata_classify_cdb (cdb (sample_cmd None)),
             sense_buf := (\<lambda>k. if k = 17 then a else if k = 19 then b else 0)\<rparr>), s)"
  by (simp add: sample_sg_def zbc_ata_classify_cdb_def ZBC_ATA_EXEC_DEV_DIAGNOSTIC_def)

lemma sample_sg_directory:
  "zbc_ata_read_log (sample_sg a b d z) dev s 0x00 page opt buf bufsz = ((0, d), s)"
  by (simp add: zbc_ata_read_log_def sample_sg_def zbc_ata_read_log_cdb_def
      ZBC_ATA_READ_LOG_DMA_EXT_def Let_def sample_cmd_def)








lemma sample_tbl_flag:
  "flag (sample_tbl st Zbc_block_drv) = 0x01000000" "flag (sample_tbl st Zbc_scsi_drv) = 0x02000000"
  "flag (sample_tbl st Zbc_ata_drv) = 0x04000000" "flag (sample_tbl st Zbc_fake_drv) = 0x08000000"
  by (simp_all add: sample_tbl_def)

lemma sample_tbl_open:
  "call_open (sample_tbl st) d w path flags
     = ((st d, sample_dev\<lparr>zbd_filename := path\<rparr>),
        \<lparr>drv_state = Suc (drv_state w), calls = calls w @ [Call_open d path flags (st d)]\<rparr>)"
  by (simp add: call_open_def sample_tbl_def)

lemma sample_env_open:
  "realpath sample_env f = Inr f" "zbc_open_allowed_drv sample_env 0 = 0x0f000000"
  "zbc_open_allowed_drv sample_env 0x0E000000 = 0x0E000000"
  "zbc_open_allowed_drv (sample_env\<lparr>HAVE_LINUX_BLKZONED_H := False\<rparr>) 0 = 0x0E000000"
  "realpath (sample_env\<lparr>HAVE_LINUX_BLKZONED_H := False\<rparr>) f = Inr f"
  by (simp_all add: sample_env_def zbc_open_allowed_drv_def)

lemma sample_dev_facts:
  "\<not> zbd_test_mode sample_dev" "zbd_sectors sample_dev = 2048" "zbd_max_rw_sectors sample_dev = 16"
  "zbd_lblock_size sample_dev = 512" "zbd_pblock_size sample_dev = 4096"
  by (simp_all add: sample_dev_def)

lemma sample_report_run:
  "zbc_report_zones sample_env (sample_drv sample_zones 3) sample_dev sample_world 0 0 True 16
   = ((0, sample_zones, 8),
      \<lparr>drv_state = 3,
       calls = [Call_report_zones 0 0x80 True 16, Call_report_zones 768 0x80 True 13,
                Call_report_zones 1536 0x80 True 10]\<rparr>)"
  by code_simp

lemma sample_list_run:
  "zbc_report_nr_zones sample_env (sample_drv sample_zones 3) sample_dev sample_world 0
     (zbc_ro_mask sample_env 0)
   = ((0, 8), \<lparr>drv_state = 1, calls = [Call_report_zones 0 0 False 0]\<rparr>)"
  "zbc_report_zones_fill_rounds sample_env (sample_drv sample_zones 3) sample_dev
     (zbc_ro_mask sample_env 0) 8 \<lparr>drv_state = 1, calls = [Call_report_zones 0 0 False 0]\<rparr> 0 0"
  by code_simp+

lemma sample_env_facts:
  "zbc_ro_mask sample_env 0 = 0" "ZBC_RO_PARTIAL sample_env = 0x80" "calloc_ok sample_env n"
  by (simp_all add: sample_env_def)

section \<open>The report iterator: start sectors beyond the capacity\<close>

text \<open>
  C10. On a device that is not in test mode, a start sector at or past the capacity
  makes \<^verbatim>\<open>zbc_report_zones\<close> store 0 in \<^verbatim>\<open>*nr_zones\<close> and return 0 with the world
  unchanged, so no driver is invoked, whether the zone buffer is null or not.
\<close>

theorem zbc_report_zones_beyond_capacity:
  "\<not> zbd_test_mode dev \<Longrightarrow> zbd_sectors dev \<le> sector \<Longrightarrow>
     zbc_report_zones h drv dev w sector ro zones nr_zones = ((0, [], 0), w)"
  by (simp add: zbc_report_zones_def)

text \<open>
  C10, on the sample device of 2048 sectors: a report into a buffer from sector 2048
  and a count query from sector 4096.
\<close>

theorem zbc_report_zones_beyond_capacity_witness:
  "zbc_report_zones sample_env (sample_drv [] 1) sample_dev sample_world 2048 0 True 16
     = ((0, [], 0), sample_world)
   \<and> zbc_report_zones sample_env (sample_drv [] 1) sample_dev sample_world 4096 0 False 0
     = ((0, [], 0), sample_world)"
  using zbc_report_zones_beyond_capacity [of sample_dev 2048 sample_env "sample_drv [] 1" sample_world 0 True 16]
        zbc_report_zones_beyond_capacity [of sample_dev 4096 sample_env "sample_drv [] 1" sample_world 0 False 0]
  by (simp add: sample_dev_def)

section \<open>The report iterator: the rounds\<close>

lemma nth_append_last: "zs \<noteq> [] \<Longrightarrow> (acc @ zs) ! (length (acc @ zs) - 1) = last zs"
  by (metis append_is_Nil_conv last_appendR last_conv_nth)

lemma zbc_report_zones_loop_rounds:
  "report_rounds h drv dev ro nr_zones w sector acc
     (zbc_report_zones_loop h drv dev ro nr_zones w sector acc)"
proof (induction h drv dev ro nr_zones w sector acc rule: zbc_report_zones_loop.induct)
  case (1 h drv dev ro nr_zones w sector zones)
  define r where "r = call_report_zones drv dev w sector (zbc_ro_mask h ro OR ZBC_RO_PARTIAL h) True
                        (nr_zones - of_nat (length zones))"
  obtain ret zs n w' where r: "r = ((ret, zs, n), w')"
    by (metis prod.exhaust)
  define e where "e = zbz_start (last zs) + zbz_length (last zs)"
  show ?case
  proof (cases "length zones < unat nr_zones")
    case False
    then show ?thesis
      by (subst zbc_report_zones_loop.simps) (simp add: report_rounds.count_reached)
  next
    case True
    consider (err) "ret \<noteq> 0" | (none) "ret = 0" "zs = []"
      | (cap) "ret = 0" "zs \<noteq> []" "zbd_sectors dev \<le> e"
      | (nxt) "ret = 0" "zs \<noteq> []" "e < zbd_sectors dev"
      by fastforce
    then show ?thesis
    proof cases
      case err
      have "zbc_report_zones_loop h drv dev ro nr_zones w sector zones
              = ((ret, zones @ zs, nr_zones), w')"
        using True err r by (subst zbc_report_zones_loop.simps) (simp add: Let_def r_def)
      then show ?thesis
        using report_rounds.driver_error [OF True r [unfolded r_def] err] by simp
    next
      case none
      have "zbc_report_zones_loop h drv dev ro nr_zones w sector zones
              = ((0, zones, of_nat (length zones)), w')"
        using True none r by (subst zbc_report_zones_loop.simps) (simp add: Let_def r_def)
      then show ?thesis
        using report_rounds.no_zone_returned [OF True] r none by (simp add: r_def)
    next
      case cap
      have "zbc_report_zones_loop h drv dev ro nr_zones w sector zones
              = ((0, zones @ zs, of_nat (length (zones @ zs))), w')"
        using True cap r
        by (subst zbc_report_zones_loop.simps) (simp add: Let_def r_def e_def nth_append_last [simplified])
      then show ?thesis
        using report_rounds.capacity_reached [OF True _ cap(2)] r cap by (simp add: r_def e_def)
    next
      case nxt
      have eq: "zbc_report_zones_loop h drv dev ro nr_zones w sector zones
              = zbc_report_zones_loop h drv dev ro nr_zones w' e (zones @ zs)"
        using True nxt r
        by (subst zbc_report_zones_loop.simps)
           (simp add: Let_def r_def e_def nth_append_last [simplified] not_le [symmetric])
      have "report_rounds h drv dev ro nr_zones w' e (zones @ zs)
              (zbc_report_zones_loop h drv dev ro nr_zones w' e (zones @ zs))"
        using 1 [OF True refl refl refl refl refl _ _ refl refl refl] True nxt r
        by (simp add: r_def e_def nth_append_last [simplified] not_le [symmetric])
      then show ?thesis
        unfolding eq [symmetric]
        using report_rounds.next_round [OF True _ nxt(2)] r nxt by (simp add: r_def e_def)
    qed
  qed
qed

lemma report_rounds_count:
  "report_rounds h drv dev ro nr_zones w sector acc res \<Longrightarrow> fst (fst res) = 0 \<Longrightarrow>
   snd (snd (fst res)) = of_nat (length (fst (snd (fst res))))"
  by (induction rule: report_rounds.induct) simp_all

text \<open>
  C1. With a zone buffer, \<^verbatim>\<open>zbc_report_zones\<close> returns at once when the device is not in
  test mode and the start sector is at or past the capacity; otherwise its result is
  the result of the rounds of \<open>report_rounds\<close> from the start sector with no zone
  accumulated: every round asks the driver, with \<^verbatim>\<open>ZBC_RO_PARTIAL\<close> added to the masked
  options, for the \<^verbatim>\<open>*nr_zones\<close> zones less those accumulated; the next round starts at
  start plus length of the last zone returned; the rounds end when the driver returns
  no zone, when \<^verbatim>\<open>*nr_zones\<close> zones are accumulated or when that sector is at or past
  the capacity, and then 0 is returned with \<^verbatim>\<open>*nr_zones\<close> set to the number of zones
  accumulated; a driver error ends them and is returned. The function is total, so
  the rounds always end.
\<close>

theorem zbc_report_zones_rounds:
  "(if \<not> zbd_test_mode dev \<and> zbd_sectors dev \<le> sector
    then zbc_report_zones h drv dev w sector ro True nr_zones = ((0, [], 0), w)
    else report_rounds h drv dev ro nr_zones w sector []
           (zbc_report_zones h drv dev w sector ro True nr_zones))
   \<and> (fst (fst (zbc_report_zones h drv dev w sector ro True nr_zones)) = 0 \<longrightarrow>
        snd (snd (fst (zbc_report_zones h drv dev w sector ro True nr_zones)))
          = of_nat (length (fst (snd (fst (zbc_report_zones h drv dev w sector ro True nr_zones))))))"
proof (cases "\<not> zbd_test_mode dev \<and> zbd_sectors dev \<le> sector")
  case True
  then show ?thesis by (simp add: zbc_report_zones_def)
next
  case False
  then have eq: "zbc_report_zones h drv dev w sector ro True nr_zones
                   = zbc_report_zones_loop h drv dev ro nr_zones w sector []"
    by (auto simp: zbc_report_zones_def)
  show ?thesis
    using False zbc_report_zones_loop_rounds [of h drv dev ro nr_zones w sector "[]"]
          report_rounds_count [OF zbc_report_zones_loop_rounds, of h drv dev ro nr_zones w sector "[]"]
    unfolding eq by auto
qed

text \<open>
  C1, on the sample device with a driver that returns at most three zones per call:
  three rounds, the last of which reaches the capacity.
\<close>

theorem zbc_report_zones_rounds_witness:
  "report_rounds sample_env (sample_drv sample_zones 3) sample_dev 0 16 sample_world 0 []
     ((0, sample_zones, 8),
      \<lparr>drv_state = 3,
       calls = [Call_report_zones 0 0x80 True 16, Call_report_zones 768 0x80 True 13,
                Call_report_zones 1536 0x80 True 10]\<rparr>)"
  using zbc_report_zones_rounds
          [of sample_dev 0 sample_env "sample_drv sample_zones 3" sample_world 0 16]
  by (simp add: sample_report_run sample_dev_facts)

section \<open>Listing the zones\<close>

text \<open>
  A fill whose rounds are not cut short stores as many zones as were asked for.
\<close>

lemma zbc_report_zones_loop_filled:
  "zbc_report_zones_fill_rounds h drv dev ro nr_zones w sector (length acc) \<Longrightarrow>
   length acc \<le> unat nr_zones \<Longrightarrow>
   \<exists>zs w'. zbc_report_zones_loop h drv dev ro nr_zones w sector acc = ((0, acc @ zs, nr_zones), w')
          \<and> length acc + length zs = unat nr_zones"
proof (induction h drv dev ro nr_zones w sector acc rule: zbc_report_zones_loop.induct)
  case (1 h drv dev ro nr_zones w sector zones)
  note rounds = "1.prems"(1)
  show ?case
  proof (cases "length zones < unat nr_zones")
    case False
    with "1.prems"(2) have "length zones = unat nr_zones" by simp
    with False show ?thesis
      by (subst zbc_report_zones_loop.simps) simp
  next
    case True
    define r where "r = call_report_zones drv dev w sector (zbc_ro_mask h ro OR ZBC_RO_PARTIAL h)
                          True (nr_zones - of_nat (length zones))"
    define zs where "zs = fst (snd (fst r))"
    define e where "e = zbz_start (last zs) + zbz_length (last zs)"
    have ok: "fst (fst r) = 0" "zs \<noteq> []" "length zones + length zs \<le> unat nr_zones"
      and more: "length zones + length zs < unat nr_zones \<Longrightarrow>
                 e < zbd_sectors dev
                 \<and> zbc_report_zones_fill_rounds h drv dev ro nr_zones (snd r) e (length (zones @ zs))"
      using rounds True
      by (subst (asm) zbc_report_zones_fill_rounds.simps;
          simp add: Let_def r_def [symmetric] zs_def [symmetric] e_def [symmetric]
            split: if_splits)+
    show ?thesis
    proof (cases "length zones + length zs < unat nr_zones")
      case less: True
      from more [OF less] have nocap: "\<not> zbd_sectors dev \<le> e"
        and next_rounds: "zbc_report_zones_fill_rounds h drv dev ro nr_zones (snd r) e
                            (length (zones @ zs))"
        by (simp_all add: not_le)
      have eq: "zbc_report_zones_loop h drv dev ro nr_zones w sector zones
                 = zbc_report_zones_loop h drv dev ro nr_zones (snd r) e (zones @ zs)"
        using True ok nocap
        by (subst zbc_report_zones_loop.simps)
           (simp add: Let_def r_def [symmetric] zs_def [symmetric]
              nth_append_last [simplified] e_def [symmetric])
      have "\<exists>zs' w'. zbc_report_zones_loop h drv dev ro nr_zones (snd r) e (zones @ zs)
                        = ((0, (zones @ zs) @ zs', nr_zones), w')
                    \<and> length (zones @ zs) + length zs' = unat nr_zones"
        using "1.IH" [OF True refl refl refl refl refl _ _ refl refl refl]
          ok nocap less next_rounds
        by (simp add: r_def [symmetric] zs_def [symmetric]
              nth_append_last [simplified] e_def [symmetric])
      then obtain zs' w' where
        "zbc_report_zones_loop h drv dev ro nr_zones (snd r) e (zones @ zs)
           = ((0, zones @ (zs @ zs'), nr_zones), w')"
        "length zones + length (zs @ zs') = unat nr_zones"
        by auto
      then show ?thesis unfolding eq by blast
    next
      case False
      with ok(3) have full: "length zones + length zs = unat nr_zones" by simp
      then have nr: "of_nat (length zones + length zs) = nr_zones" by simp
      show ?thesis
      proof (cases "zbd_sectors dev \<le> e")
        case cap: True
        have "zbc_report_zones_loop h drv dev ro nr_zones w sector zones
                = ((0, zones @ zs, of_nat (length (zones @ zs))), snd r)"
          using True ok cap
          by (subst zbc_report_zones_loop.simps)
             (simp add: Let_def r_def [symmetric] zs_def [symmetric]
                nth_append_last [simplified] e_def [symmetric])
        then show ?thesis using nr full by auto
      next
        case nocap: False
        have "zbc_report_zones_loop h drv dev ro nr_zones w sector zones
                 = zbc_report_zones_loop h drv dev ro nr_zones (snd r) e (zones @ zs)"
          using True ok nocap
          by (subst zbc_report_zones_loop.simps)
             (simp add: Let_def r_def [symmetric] zs_def [symmetric]
                nth_append_last [simplified] e_def [symmetric])
        also have "\<dots> = ((0, zones @ zs, of_nat (length (zones @ zs))), snd r)"
          using full by (subst zbc_report_zones_loop.simps) simp
        finally show ?thesis using nr full by auto
      qed
    qed
  qed
qed

text \<open>
  C9, as stated, fails: the number of zones returned is the number that the fill
  stored, which is not always the count of the count query. The sample driver counts
  the eight zones of its list from sector 0 on; on a device whose capacity is 768
  sectors the fill stops after the first round of three zones, the last of which ends
  at the capacity, and \<^verbatim>\<open>zbc_list_zones\<close> returns 3 zones in an array of 8 descriptors.
\<close>

theorem zbc_list_zones_short_counterexample:
  "fst (zbc_report_nr_zones sample_env (sample_drv sample_zones 3) (sample_dev\<lparr>zbd_sectors := 768\<rparr>)
          sample_world 0 (zbc_ro_mask sample_env 0)) = (0, 8)
   \<and> fst (zbc_list_zones sample_env (sample_drv sample_zones 3) (sample_dev\<lparr>zbd_sectors := 768\<rparr>)
            sample_world 0 0)
       = (0, Some (map sample_zone [0, 1, 2] @ replicate 5 calloc_zone), 3)
   \<and> (3 :: 32 word) \<noteq> 8"
  by code_simp

text \<open>
  C9, amended. \<^verbatim>\<open>zbc_list_zones\<close> first asks for the number of zones with a null buffer.
  When this count query returns 0 with the count \<open>n\<close>, the allocation of \<open>n\<close>
  descriptors succeeds and the rounds of the fill are not cut short, it fills the
  descriptors with \<^verbatim>\<open>zbc_report_zones\<close>, asked for \<open>n\<close> zones in the world that the count
  query left, and returns that array (no array when \<open>n\<close> is 0): the array holds \<open>n\<close>
  zones and the number of zones returned is \<open>n\<close>, the count of the count query, for
  every start sector and all reporting options.
\<close>

theorem zbc_list_zones_count:
  assumes count: "zbc_report_nr_zones h drv dev w sector (zbc_ro_mask h ro) = ((0, n), w1)"
    and alloc: "n \<noteq> 0 \<Longrightarrow> calloc_ok h (unat n)"
    and rounds: "zbc_report_zones_fill_rounds h drv dev (zbc_ro_mask h ro) n w1 sector 0"
  shows "\<exists>zones w2.
           zbc_report_zones h drv dev w1 sector (zbc_ro_mask h ro) True n = ((0, zones, n), w2)
         \<and> length zones = unat n
         \<and> zbc_list_zones h drv dev w sector ro
             = ((0, if n = 0 then None else Some zones, n), w2)"
proof (cases "n = 0")
  case True
  have "zbc_report_zones h drv dev w1 sector (zbc_ro_mask h ro) True 0 = ((0, [], 0), w1)"
    by (simp add: zbc_report_zones_def zbc_report_zones_loop.simps)
  then show ?thesis
    using True count by (simp add: zbc_list_zones_def Let_def)
next
  case False
  have inside: "\<not> (\<not> zbd_test_mode dev \<and> zbd_sectors dev \<le> sector)"
    using count False by (auto simp add: zbc_report_nr_zones_def zbc_report_zones_def)
  obtain zones w2 where
    loop: "zbc_report_zones_loop h drv dev (zbc_ro_mask h ro) n w1 sector [] = ((0, zones, n), w2)"
    and full: "length zones = unat n"
    using zbc_report_zones_loop_filled [of h drv dev "zbc_ro_mask h ro" n w1 sector "[]"] rounds
    by auto
  have fill: "zbc_report_zones h drv dev w1 sector (zbc_ro_mask h ro) True n = ((0, zones, n), w2)"
    using inside loop by (auto simp add: zbc_report_zones_def)
  have "zbc_list_zones h drv dev w sector ro = ((0, Some zones, n), w2)"
    using count False alloc fill full by (simp add: zbc_list_zones_def Let_def)
  with fill full False show ?thesis by auto
qed

text \<open>
  C9, amended, on the sample device from sector 0 with the options 0: the count query
  gives 8, and the eight zones are fetched three per round.
\<close>

theorem zbc_list_zones_count_witness:
  "\<exists>zones w2.
     zbc_report_zones sample_env (sample_drv sample_zones 3) sample_dev
       \<lparr>drv_state = 1, calls = [Call_report_zones 0 0 False 0]\<rparr> 0 (zbc_ro_mask sample_env 0) True 8
       = ((0, zones, 8), w2)
   \<and> length zones = 8
   \<and> zbc_list_zones sample_env (sample_drv sample_zones 3) sample_dev sample_world 0 0
       = ((0, Some zones, 8), w2)"
  using zbc_list_zones_count [OF sample_list_run(1) sample_env_facts(3) sample_list_run(2)]
  by simp

section \<open>The ATA backend\<close>

subsection \<open>Classification by signature\<close>

text \<open>
  The value that \<^verbatim>\<open>zbc_ata_get_word\<close> reads, from the two bytes: the first is the low
  byte.
\<close>

lemma zbc_ata_get_word_bytes:
  "uint (zbc_ata_get_word buf p) = uint (buf p) + 256 * uint (buf (p + 1))"
proof -
  let ?lo = "ucast (buf p) :: 16 word" and ?hi = "push_bit 8 (ucast (buf (p + 1))) :: 16 word"
  have "?lo + ?hi = ?lo OR ?hi"
    by (rule disjunctive_add_eq_or) (auto simp add: bit_eq_iff bit_simps dest: bit_imp_le_length)
  then have w: "zbc_ata_get_word buf p = ?lo + ?hi" by (simp add: zbc_ata_get_word_def)
  have lo: "uint ?lo = uint (buf p)" by (simp add: uint_up_ucast is_up)
  have "uint (buf (p + 1)) < 256" using uint_bounded [of "buf (p + 1)"] by simp
  then have hi: "uint ?hi = 256 * uint (buf (p + 1))"
    by (simp add: push_bit_eq_mult uint_word_ariths uint_up_ucast is_up)
  have "uint (buf p) < 256" using uint_bounded [of "buf p"] by simp
  with \<open>uint (buf (p + 1)) < 256\<close> have "uint ?lo + uint ?hi < 2 ^ LENGTH(16)"
    unfolding lo hi by simp
  then have "uint (?lo + ?hi) = uint ?lo + uint ?hi" by (rule uint_add_lem [THEN iffD1])
  then show ?thesis unfolding w lo hi .
qed

text \<open>
  C5. When the diagnostic command has been executed, \<^verbatim>\<open>zbc_ata_classify\<close> looks at the
  bytes \<^verbatim>\<open>desc[9]\<close> and \<^verbatim>\<open>desc[11]\<close> of the sense descriptor: (0xCD, 0xAB) gives the
  model HOST_MANAGED; (0x00, 0x00) makes it read the log directory for the number of
  pages of the log 0x1A, which is the 16-bit little-endian value in the bytes 52 and
  53 of the directory: a count that is not 0 gives HOST_AWARE, with the count as
  status, and a count of 0 gives DRIVE_MANAGED, which \<^verbatim>\<open>zbc_ata_get_info\<close> then refuses
  with \<open>- ENXIO\<close>; every other signature gives \<open>- ENXIO\<close>.
\<close>

theorem zbc_ata_classify_signature:
  assumes init: "zbc_sg_cmd_init sg s ZBC_SG_ATA16 None 0 = ((0, cmd), s1)"
    and exec: "zbc_sg_cmd_exec sg s1 dev
                 (cmd\<lparr>dxfer_direction := SG_DXFER_NONE, cdb := zbc_ata_classify_cdb (cdb cmd)\<rparr>)
               = ((0, cmd2), s2)"
  defines "sig \<equiv> (sense_buf cmd2 (8 + 9), sense_buf cmd2 (8 + 11))"
    and "dev1 \<equiv> dev\<lparr>zbd_type := ZBC_DT_ATA\<rparr>"
  shows "(sig = (0xCD, 0xAB) \<longrightarrow>
            zbc_ata_classify sg dev s = ((0, dev1\<lparr>zbd_model := ZBC_DM_HOST_MANAGED\<rparr>), s2))
       \<and> (sig = (0x00, 0x00) \<longrightarrow>
            (\<forall>buf s3. zbc_ata_read_log sg dev1 s2 0x00 0 0 (uninit sg) 512 = ((0, buf), s3) \<longrightarrow>
               (buf 52 \<noteq> 0 \<or> buf 53 \<noteq> 0 \<longrightarrow>
                  zbc_ata_classify sg dev s
                    = ((uint (buf 52) + 256 * uint (buf 53),
                        dev1\<lparr>zbd_model := ZBC_DM_HOST_AWARE\<rparr>), s3))
             \<and> (buf 52 = 0 \<and> buf 53 = 0 \<longrightarrow>
                  zbc_ata_classify sg dev s = ((0, dev1\<lparr>zbd_model := ZBC_DM_DRIVE_MANAGED\<rparr>), s3)
                \<and> zbc_ata_get_info sg dev s
                    = Some ((- ENXIO, dev1\<lparr>zbd_model := ZBC_DM_DRIVE_MANAGED\<rparr>), s3))))
       \<and> (sig \<noteq> (0xCD, 0xAB) \<and> sig \<noteq> (0x00, 0x00) \<longrightarrow>
            zbc_ata_classify sg dev s = ((- ENXIO, dev1), s2)
          \<and> zbc_ata_get_info sg dev s = Some ((- ENXIO, dev1), s2))"
proof -
  have hm: "zbc_ata_classify sg dev s = ((0, dev1\<lparr>zbd_model := ZBC_DM_HOST_MANAGED\<rparr>), s2)"
    if "sig = (0xCD, 0xAB)"
    using that init exec by (simp add: zbc_ata_classify_def sig_def dev1_def)
  have other: "zbc_ata_classify sg dev s = ((- ENXIO, dev1), s2)"
    if "sig \<noteq> (0xCD, 0xAB)" "sig \<noteq> (0x00, 0x00)"
    using that init exec by (auto simp add: zbc_ata_classify_def sig_def dev1_def)
  have std: "zbc_ata_classify sg dev s
      = (let p = zbc_ata_report_zones_pages sg dev1 s2; ret = fst p
         in if ret = 0 then ((ret, dev1\<lparr>zbd_model := ZBC_DM_DRIVE_MANAGED\<rparr>), snd p)
            else if ret > 0 then ((ret, dev1\<lparr>zbd_model := ZBC_DM_HOST_AWARE\<rparr>), snd p)
            else ((ret, dev1), snd p))"
    if "sig = (0x00, 0x00)"
    using that init exec by (simp add: zbc_ata_classify_def sig_def dev1_def Let_def)
  have pages: "zbc_ata_report_zones_pages sg dev1 s2 = (uint (buf 52) + 256 * uint (buf 53), s3)"
    if "zbc_ata_read_log sg dev1 s2 0x00 0 0 (uninit sg) 512 = ((0, buf), s3)" for buf s3
    using that zbc_ata_get_word_bytes [of buf 52]
    by (simp add: zbc_ata_report_zones_pages_def ZBC_ATA_REPORT_ZONES_LOG_PAGE_def)
  have ha: "zbc_ata_classify sg dev s
       = ((uint (buf 52) + 256 * uint (buf 53), dev1\<lparr>zbd_model := ZBC_DM_HOST_AWARE\<rparr>), s3)"
    if "sig = (0x00, 0x00)" "zbc_ata_read_log sg dev1 s2 0x00 0 0 (uninit sg) 512 = ((0, buf), s3)"
       "buf 52 \<noteq> 0 \<or> buf 53 \<noteq> 0" for buf s3
  proof -
    have "0 < uint (buf 52) \<or> 0 < uint (buf 53)"
      using that(3) uint_ge_0 [of "buf 52"] uint_ge_0 [of "buf 53"]
      by (simp add: order_less_le uint_0_iff del: uint_ge_0)
    moreover have "0 \<le> uint (buf 52)" "0 \<le> uint (buf 53)" by simp_all
    ultimately have "0 < uint (buf 52) + 256 * uint (buf 53)" by linarith
    then show ?thesis
      using std [OF that(1)] pages [OF that(2)] by (simp add: Let_def)
  qed
  have dm: "zbc_ata_classify sg dev s = ((0, dev1\<lparr>zbd_model := ZBC_DM_DRIVE_MANAGED\<rparr>), s3)"
    if "sig = (0x00, 0x00)" "zbc_ata_read_log sg dev1 s2 0x00 0 0 (uninit sg) 512 = ((0, buf), s3)"
       "buf 52 = 0 \<and> buf 53 = 0" for buf s3
    using std [OF that(1)] pages [OF that(2)] that(3) by (simp add: Let_def)
  have dm_info: "zbc_ata_get_info sg dev s
       = Some ((- ENXIO, dev1\<lparr>zbd_model := ZBC_DM_DRIVE_MANAGED\<rparr>), s3)"
    if "sig = (0x00, 0x00)" "zbc_ata_read_log sg dev1 s2 0x00 0 0 (uninit sg) 512 = ((0, buf), s3)"
       "buf 52 = 0 \<and> buf 53 = 0" for buf s3
    using dm [OF that] by (simp add: zbc_ata_get_info_def)
  have other_info: "zbc_ata_get_info sg dev s = Some ((- ENXIO, dev1), s2)"
    if "sig \<noteq> (0xCD, 0xAB)" "sig \<noteq> (0x00, 0x00)"
    using other [OF that] by (simp add: zbc_ata_get_info_def ENXIO_def)
  show ?thesis
    using hm ha dm dm_info other other_info by blast
qed

text \<open>
  C5, on sample transports: a host-managed signature; a standard signature with a
  directory that gives the log 0x1A three pages, 256 pages (the low byte of the count
  is 0) and no page; and an unknown signature.
\<close>

theorem zbc_ata_classify_signature_witness:
  "zbc_ata_classify (sample_sg 0xCD 0xAB (sample_directory 0) (sample_zone_log 3)) sample_dev ()
     = ((0, sample_dev\<lparr>zbd_type := ZBC_DT_ATA, zbd_model := ZBC_DM_HOST_MANAGED\<rparr>), ())
   \<and> zbc_ata_classify (sample_sg 0x00 0x00 (sample_directory 3) (sample_zone_log 3)) sample_dev ()
     = ((3, sample_dev\<lparr>zbd_type := ZBC_DT_ATA, zbd_model := ZBC_DM_HOST_AWARE\<rparr>), ())
   \<and> zbc_ata_classify (sample_sg 0x00 0x00 (sample_directory 256) (sample_zone_log 3)) sample_dev ()
     = ((256, sample_dev\<lparr>zbd_type := ZBC_DT_ATA, zbd_model := ZBC_DM_HOST_AWARE\<rparr>), ())
   \<and> zbc_ata_get_info (sample_sg 0x00 0x00 (sample_directory 0) (sample_zone_log 0)) sample_dev ()
     = Some ((- ENXIO, sample_dev\<lparr>zbd_type := ZBC_DT_ATA, zbd_model := ZBC_DM_DRIVE_MANAGED\<rparr>), ())
   \<and> zbc_ata_get_info (sample_sg 0x3C 0xC3 (sample_directory 3) (sample_zone_log 3)) sample_dev ()
     = Some ((- ENXIO, sample_dev\<lparr>zbd_type := ZBC_DT_ATA\<rparr>), ())"
proof -
  have i: "zbc_sg_cmd_init (sample_sg a b d z) () ZBC_SG_ATA16 None 0 = ((0, sample_cmd None), ())"
    for a b d z by (rule sample_sg_init)
  have e: "zbc_sg_cmd_exec (sample_sg a b d z) () sample_dev
     (sample_cmd None\<lparr>dxfer_direction := SG_DXFER_NONE,
                       cdb := zbc_ata_classify_cdb (cdb (sample_cmd None))\<rparr>)
   = ((0, sample_cmd None
            \<lparr>dxfer_direction := SG_DXFER_NONE,
             cdb := zbc_ata_classify_cdb (cdb (sample_cmd None)),
             sense_buf := (\<lambda>k. if k = 17 then a else if k = 19 then b else 0)\<rparr>), ())"
    for a b d z by (rule sample_sg_diagnostic)
  note t = zbc_ata_classify_signature [OF i e]
  show ?thesis
    using t [of "0xCD" "0xAB" "sample_directory 0" "sample_zone_log 3"]
          t [of "0x00" "0x00" "sample_directory 3" "sample_zone_log 3"]
          t [of "0x00" "0x00" "sample_directory 256" "sample_zone_log 3"]
          t [of "0x00" "0x00" "sample_directory 0" "sample_zone_log 0"]
          t [of "0x3C" "0xC3" "sample_directory 3" "sample_zone_log 3"]
    by (simp add: sample_sg_directory sample_directory_def)
qed

subsection \<open>The command blocks of READ DMA EXT and WRITE DMA EXT\<close>

text \<open>
  C6. The count bytes of the command blocks of \<^verbatim>\<open>zbc_ata_pread\<close> and \<^verbatim>\<open>zbc_ata_pwrite\<close>
  are computed with the remainder by 0xff, not with the mask 0xff: for a count of 255
  byte 6 of both blocks is 0, where bits 7:0 of the count are 0xff. The claim asks for
  the bits of the count.
\<close>

theorem zbc_ata_rw_cdb_count_255:
  "zbc_ata_pread_cdb c 255 lba 6 = 0 \<and> zbc_ata_pwrite_cdb c 255 lba 6 = 0
   \<and> (ucast ((255 :: 32 word) AND 0xff) :: 8 word) = 0xff"
  by (simp add: zbc_ata_pread_cdb_def zbc_ata_pwrite_cdb_def)

subsection \<open>Reading and parsing the Report Zones log\<close>










subsection \<open>Malformed payloads\<close>







section \<open>The vectored I/O entry points\<close>

subsection \<open>Alignment\<close>

text \<open>
  C3. On a device that is not in test mode, \<^verbatim>\<open>zbc_pread\<close> and \<^verbatim>\<open>zbc_preadv\<close> return
  \<open>- EINVAL\<close> with the world unchanged, so without a driver call, when the total sector
  count or the sector offset is not aligned on the logical block; \<^verbatim>\<open>zbc_pwrite\<close> and
  \<^verbatim>\<open>zbc_pwritev\<close> do so when the count or the offset is not aligned on the physical
  block.
\<close>

theorem zbc_rw_unaligned:
  assumes "\<not> zbd_test_mode dev"
  shows "(\<not> zbc_dev_sect_laligned dev count' \<or> \<not> zbc_dev_sect_laligned dev offset \<longrightarrow>
            zbc_pread h drv dev w buf count' offset = Some (- EINVAL, w))
       \<and> (\<not> zbc_dev_sect_laligned dev (zbc_iov_count iov) \<or> \<not> zbc_dev_sect_laligned dev offset \<longrightarrow>
            zbc_preadv h drv dev w (Some iov) offset = Some (- EINVAL, w))
       \<and> (\<not> zbc_dev_sect_paligned dev count' \<or> \<not> zbc_dev_sect_paligned dev offset \<longrightarrow>
            zbc_pwrite h drv dev w buf count' offset = Some (- EINVAL, w))
       \<and> (\<not> zbc_dev_sect_paligned dev (zbc_iov_count iov) \<or> \<not> zbc_dev_sect_paligned dev offset \<longrightarrow>
            zbc_pwritev h drv dev w (Some iov) offset = Some (- EINVAL, w))"
  using assms
  by (simp add: zbc_pread_def zbc_preadv_def zbc_pwrite_def zbc_pwritev_def zbc_do_preadv_def
      zbc_do_pwritev_def zbc_iov_count_def Let_def)

text \<open>
  C3, on sample devices: reads on a device with logical blocks of 4096 bytes, writes
  on one with logical blocks of 512 and physical blocks of 4096 bytes.
\<close>

theorem zbc_rw_unaligned_witness:
  "zbc_pread sample_env (sample_drv [] 16) (sample_dev\<lparr>zbd_lblock_size := 4096\<rparr>) sample_world
     0 8 2044 = Some (- EINVAL, sample_world)
   \<and> zbc_preadv sample_env (sample_drv [] 16) (sample_dev\<lparr>zbd_lblock_size := 4096\<rparr>) sample_world
     (Some [\<lparr>iov_base = 0, iov_len = 4\<rparr>, \<lparr>iov_base = 4096, iov_len = 3\<rparr>]) 0
       = Some (- EINVAL, sample_world)
   \<and> zbc_pwrite sample_env (sample_drv [] 16) sample_dev sample_world 0 8 1
       = Some (- EINVAL, sample_world)
   \<and> zbc_pwritev sample_env (sample_drv [] 16) sample_dev sample_world
     (Some [\<lparr>iov_base = 0, iov_len = 4\<rparr>, \<lparr>iov_base = 4096, iov_len = 3\<rparr>]) 0
       = Some (- EINVAL, sample_world)"
  using zbc_rw_unaligned [of "sample_dev\<lparr>zbd_lblock_size := 4096\<rparr>" 8 2044 sample_env
          "sample_drv [] 16" sample_world 0 "[\<lparr>iov_base = 0, iov_len = 4\<rparr>, \<lparr>iov_base = 4096, iov_len = 3\<rparr>]"]
        zbc_rw_unaligned [of "sample_dev\<lparr>zbd_lblock_size := 4096\<rparr>" 8 0 sample_env
          "sample_drv [] 16" sample_world 0 "[\<lparr>iov_base = 0, iov_len = 4\<rparr>, \<lparr>iov_base = 4096, iov_len = 3\<rparr>]"]
        zbc_rw_unaligned [of "sample_dev" 8 1 sample_env
          "sample_drv [] 16" sample_world 0 "[\<lparr>iov_base = 0, iov_len = 4\<rparr>, \<lparr>iov_base = 4096, iov_len = 3\<rparr>]"]
        zbc_rw_unaligned [of "sample_dev" 8 0 sample_env
          "sample_drv [] 16" sample_world 0 "[\<lparr>iov_base = 0, iov_len = 4\<rparr>, \<lparr>iov_base = 4096, iov_len = 3\<rparr>]"]
  by (simp add: sample_dev_def zbc_dev_sect_laligned_def zbc_dev_sect_paligned_def zbc_iov_count_def)

subsection \<open>Clamping at the end of the device\<close>

text \<open>
  A transfer loop whose rounds make progress returns the count, after rounds that
  transfer exactly the sectors that were left.
\<close>

lemma sint_small: "unat (x :: 64 word) < 2 ^ 63 \<Longrightarrow> sint x = int (unat x)"
proof -
  assume "unat x < 2 ^ 63"
  then have "int (unat x) < 2 ^ 63" by (metis of_nat_less_iff of_nat_numeral of_nat_power)
  then have "uint x < 2 ^ 63" by simp
  moreover have "- (2 ^ 63) \<le> uint x"
  proof -
    have "- (2 ^ 63) \<le> (0 :: int)" by simp
    also have "0 \<le> uint x" by simp
    finally show ?thesis .
  qed
  ultimately have "signed_take_bit 63 (uint x) = uint x"
    by (rule signed_take_bit_int_eq_self [rotated])
  then show ?thesis by (simp add: sint_uint)
qed

lemma sectors_transferred_append:
  "sectors_transferred (cs @ [Call_preadv iov offset ret]) = sectors_transferred cs + ret"
  "sectors_transferred (cs @ [Call_pwritev iov offset ret]) = sectors_transferred cs + ret"
  by (induction cs rule: sectors_transferred.induct) simp_all

lemma zbc_do_preadv_loop_rounds:
  "zbc_preadv_rounds drv dev iov count1 max_count w offset rd_iov_offset \<Longrightarrow>
   unat rd_iov_offset \<le> unat count1 \<Longrightarrow> unat count1 < 2 ^ 63 \<Longrightarrow>
   \<exists>w'. zbc_do_preadv_loop drv dev iov count1 max_count w offset rd_iov_offset
          = Some (int (unat count1), w')
        \<and> sectors_transferred (calls w')
            = sectors_transferred (calls w) + int (unat count1 - unat rd_iov_offset)"
proof (induction drv dev iov count1 max_count w offset rd_iov_offset
        rule: zbc_preadv_rounds.induct)
  case (1 drv dev iov count1 max_count w offset rd_iov_offset)
  note rounds = "1.prems"(1) and small = "1.prems"(3)
  show ?case
  proof (cases "rd_iov_offset < count1")
    case False
    with "1.prems"(2) have "unat rd_iov_offset = unat count1"
      by (simp add: word_less_nat_alt)
    with False show ?thesis
      by (subst zbc_do_preadv_loop.simps) (simp add: sint_small [OF small])
  next
    case True
    define rd_iov_count where
      "rd_iov_count = (if count1 - rd_iov_offset > max_count then max_count
                       else count1 - rd_iov_offset)"
    define r where
      "r = call_preadv drv dev w (zbc_iov_convert iov rd_iov_offset rd_iov_count) offset"
    have ret: "0 < fst r \<and> fst r \<le> int (unat rd_iov_count)"
      and next_rounds: "zbc_preadv_rounds drv dev iov count1 max_count (snd r)
                          (offset + of_int (fst r)) (rd_iov_offset + of_int (fst r))"
      using rounds True
      by (subst (asm) zbc_preadv_rounds.simps;
          simp add: Let_def rd_iov_count_def [symmetric] r_def [symmetric] split: if_splits)+
    have adv: "unat (rd_iov_offset + of_int (fst r)) = unat rd_iov_offset + nat (fst r)"
        "unat rd_iov_offset + nat (fst r) \<le> unat count1"
      using round_advance [OF True, of "fst r" max_count] ret
      by (simp_all add: rd_iov_count_def)
    have log: "sectors_transferred (calls (snd r)) = sectors_transferred (calls w) + fst r"
      by (simp add: r_def call_preadv_def split_beta sectors_transferred_append)
    have eq: "zbc_do_preadv_loop drv dev iov count1 max_count w offset rd_iov_offset
                = zbc_do_preadv_loop drv dev iov count1 max_count (snd r)
                    (offset + of_int (fst r)) (rd_iov_offset + of_int (fst r))"
      using True ret
      by (subst zbc_do_preadv_loop.simps)
         (simp add: Let_def rd_iov_count_def [symmetric] r_def [symmetric])
    have "\<exists>w'. zbc_do_preadv_loop drv dev iov count1 max_count (snd r)
                  (offset + of_int (fst r)) (rd_iov_offset + of_int (fst r))
                = Some (int (unat count1), w')
              \<and> sectors_transferred (calls w')
                  = sectors_transferred (calls (snd r))
                    + int (unat count1 - unat (rd_iov_offset + of_int (fst r)))"
      using "1.IH" [OF True rd_iov_count_def r_def refl ret next_rounds _ small] adv
      by simp
    then show ?thesis
      unfolding eq log using adv ret by (auto simp add: nat_le_iff)
  qed
qed

lemma zbc_do_pwritev_loop_rounds:
  "zbc_pwritev_rounds drv dev iov count1 max_count w offset wr_iov_offset \<Longrightarrow>
   unat wr_iov_offset \<le> unat count1 \<Longrightarrow> unat count1 < 2 ^ 63 \<Longrightarrow>
   \<exists>w'. zbc_do_pwritev_loop drv dev iov count1 max_count w offset wr_iov_offset
          = Some (int (unat count1), w')
        \<and> sectors_transferred (calls w')
            = sectors_transferred (calls w) + int (unat count1 - unat wr_iov_offset)"
proof (induction drv dev iov count1 max_count w offset wr_iov_offset
        rule: zbc_pwritev_rounds.induct)
  case (1 drv dev iov count1 max_count w offset wr_iov_offset)
  note rounds = "1.prems"(1) and small = "1.prems"(3)
  show ?case
  proof (cases "wr_iov_offset < count1")
    case False
    with "1.prems"(2) have "unat wr_iov_offset = unat count1"
      by (simp add: word_less_nat_alt)
    with False show ?thesis
      by (subst zbc_do_pwritev_loop.simps) (simp add: sint_small [OF small])
  next
    case True
    define wr_iov_count where
      "wr_iov_count = (if count1 - wr_iov_offset > max_count then max_count
                       else count1 - wr_iov_offset)"
    define r where
      "r = call_pwritev drv dev w (zbc_iov_convert iov wr_iov_offset wr_iov_count) offset"
    have ret: "0 < fst r \<and> fst r \<le> int (unat wr_iov_count)"
      and next_rounds: "zbc_pwritev_rounds drv dev iov count1 max_count (snd r)
                          (offset + of_int (fst r)) (wr_iov_offset + of_int (fst r))"
      using rounds True
      by (subst (asm) zbc_pwritev_rounds.simps;
          simp add: Let_def wr_iov_count_def [symmetric] r_def [symmetric] split: if_splits)+
    have adv: "unat (wr_iov_offset + of_int (fst r)) = unat wr_iov_offset + nat (fst r)"
        "unat wr_iov_offset + nat (fst r) \<le> unat count1"
      using round_advance [OF True, of "fst r" max_count] ret
      by (simp_all add: wr_iov_count_def)
    have log: "sectors_transferred (calls (snd r)) = sectors_transferred (calls w) + fst r"
      by (simp add: r_def call_pwritev_def split_beta sectors_transferred_append)
    have eq: "zbc_do_pwritev_loop drv dev iov count1 max_count w offset wr_iov_offset
                = zbc_do_pwritev_loop drv dev iov count1 max_count (snd r)
                    (offset + of_int (fst r)) (wr_iov_offset + of_int (fst r))"
      using True ret
      by (subst zbc_do_pwritev_loop.simps)
         (simp add: Let_def wr_iov_count_def [symmetric] r_def [symmetric])
    have "\<exists>w'. zbc_do_pwritev_loop drv dev iov count1 max_count (snd r)
                  (offset + of_int (fst r)) (wr_iov_offset + of_int (fst r))
                = Some (int (unat count1), w')
              \<and> sectors_transferred (calls w')
                  = sectors_transferred (calls (snd r))
                    + int (unat count1 - unat (wr_iov_offset + of_int (fst r)))"
      using "1.IH" [OF True wr_iov_count_def r_def refl ret next_rounds _ small] adv
      by simp
    then show ?thesis
      unfolding eq log using adv ret by (auto simp add: nat_le_iff)
  qed
qed

lemma unat_push_bit_9:
  "512 * unat (x :: 64 word) < 2 ^ 64 \<Longrightarrow> unat (push_bit 9 x) = 512 * unat x"
  by (simp add: push_bit_eq_mult unat_word_ariths)

lemma iov_total_Cons: "iov_total (v # iov) = unat (iov_len v) + iov_total iov"
  by (simp add: iov_total_def)

lemma zbc_iov_count_total: "iov_total iov < 2 ^ 64 \<Longrightarrow> unat (zbc_iov_count iov) = iov_total iov"
proof (induction iov)
  case Nil
  then show ?case by (simp add: zbc_iov_count_def iov_total_def)
next
  case (Cons v iov)
  have step: "zbc_iov_count (v # iov) = iov_len v + zbc_iov_count iov"
    by (simp add: zbc_iov_count_def)
  from Cons have rest: "unat (zbc_iov_count iov) = iov_total iov"
    by (simp add: iov_total_Cons)
  with Cons.prems have "unat (iov_len v) + unat (zbc_iov_count iov) < 2 ^ LENGTH(64)"
    by (simp add: iov_total_Cons)
  then have "unat (iov_len v + zbc_iov_count iov) = unat (iov_len v) + unat (zbc_iov_count iov)"
    by (rule unat_add_lem [THEN iffD1])
  then show ?case by (simp add: step rest iov_total_Cons)
qed

lemma clamp_facts:
  assumes size: "512 * iov_total iov < 2 ^ 63"
    and beyond: "unat (zbd_sectors dev) < unat offset + iov_total iov"
    and nowrap: "unat offset + iov_total iov < 2 ^ 64"
  shows "\<not> push_bit 9 (zbc_iov_count iov) > SSIZE_MAX"
    and "offset + zbc_iov_count iov > zbd_sectors dev"
    and "offset < zbd_sectors dev \<Longrightarrow> zbd_sectors dev - offset \<noteq> 0"
    and "offset < zbd_sectors dev \<Longrightarrow> unat (zbd_sectors dev - offset) \<le> iov_total iov"
proof -
  have total: "unat (zbc_iov_count iov) = iov_total iov"
    using size by (intro zbc_iov_count_total) simp
  have "unat (push_bit 9 (zbc_iov_count iov)) = 512 * unat (zbc_iov_count iov)"
    using size by (intro unat_push_bit_9) (simp add: total)
  then show "\<not> push_bit 9 (zbc_iov_count iov) > SSIZE_MAX"
    using size by (simp add: word_less_nat_alt SSIZE_MAX_def total)
  have "unat offset + unat (zbc_iov_count iov) < 2 ^ LENGTH(64)"
    using nowrap by (simp add: total)
  then have "unat (offset + zbc_iov_count iov) = unat offset + unat (zbc_iov_count iov)"
    by (rule unat_add_lem [THEN iffD1])
  then show "offset + zbc_iov_count iov > zbd_sectors dev"
    using beyond by (simp add: word_less_nat_alt total)
  show "zbd_sectors dev - offset \<noteq> 0" if "offset < zbd_sectors dev"
    using that by auto
  show "unat (zbd_sectors dev - offset) \<le> iov_total iov" if "offset < zbd_sectors dev"
    using that beyond by (simp add: unat_sub word_less_nat_alt word_le_nat_alt)
qed

lemma zbc_do_preadv_clamped:
  assumes nt: "\<not> zbd_test_mode dev"
    and size: "512 * iov_total iov < 2 ^ 63"
    and beyond: "unat (zbd_sectors dev) < unat offset + iov_total iov"
    and nowrap: "unat offset + iov_total iov < 2 ^ 64"
    and aligned: "zbc_dev_sect_laligned dev (zbc_iov_count iov)" "zbc_dev_sect_laligned dev offset"
  shows "zbd_sectors dev \<le> offset \<Longrightarrow> zbc_do_preadv h drv dev w iov offset = Some (0, w)"
    and "offset < zbd_sectors dev \<Longrightarrow>
         zbc_preadv_rounds drv dev iov (zbd_sectors dev - offset) (zbd_max_rw_sectors dev)
           w offset 0 \<Longrightarrow>
         \<exists>w'. zbc_do_preadv h drv dev w iov offset
                = Some (int (unat (zbd_sectors dev - offset)), w')
              \<and> sectors_transferred (calls w')
                  = sectors_transferred (calls w) + int (unat (zbd_sectors dev - offset))"
proof -
  note facts = clamp_facts [OF size beyond nowrap]
  show "zbc_do_preadv h drv dev w iov offset = Some (0, w)" if "zbd_sectors dev \<le> offset"
    using that nt aligned facts(1,2) by (simp add: zbc_do_preadv_def Let_def)
  show "\<exists>w'. zbc_do_preadv h drv dev w iov offset
                = Some (int (unat (zbd_sectors dev - offset)), w')
              \<and> sectors_transferred (calls w')
                  = sectors_transferred (calls w) + int (unat (zbd_sectors dev - offset))"
    if inside: "offset < zbd_sectors dev"
      and rounds: "zbc_preadv_rounds drv dev iov (zbd_sectors dev - offset)
                     (zbd_max_rw_sectors dev) w offset 0"
  proof -
    have "zbc_do_preadv h drv dev w iov offset
            = zbc_do_preadv_loop drv dev iov (zbd_sectors dev - offset) (zbd_max_rw_sectors dev)
                w offset 0"
    proof -
      from inside have "\<not> zbd_sectors dev \<le> offset" by (simp add: not_le)
      then show ?thesis
        using nt aligned facts(1,2) facts(3) [OF inside]
        by (simp add: zbc_do_preadv_def Let_def)
    qed
    moreover have "unat (zbd_sectors dev - offset) < 2 ^ 63"
      using facts(4) [OF inside] size by simp
    then have "\<exists>w'. zbc_do_preadv_loop drv dev iov (zbd_sectors dev - offset)
                          (zbd_max_rw_sectors dev) w offset 0
                        = Some (int (unat (zbd_sectors dev - offset)), w')
                    \<and> sectors_transferred (calls w')
                        = sectors_transferred (calls w)
                          + int (unat (zbd_sectors dev - offset) - unat (0 :: 64 word))"
      by (intro zbc_do_preadv_loop_rounds [OF rounds]) simp_all
    ultimately show ?thesis by simp
  qed
qed

lemma zbc_do_pwritev_clamped:
  assumes nt: "\<not> zbd_test_mode dev"
    and size: "512 * iov_total iov < 2 ^ 63"
    and beyond: "unat (zbd_sectors dev) < unat offset + iov_total iov"
    and nowrap: "unat offset + iov_total iov < 2 ^ 64"
    and aligned: "zbc_dev_sect_paligned dev (zbc_iov_count iov)" "zbc_dev_sect_paligned dev offset"
  shows "zbd_sectors dev \<le> offset \<Longrightarrow> zbc_do_pwritev h drv dev w iov offset = Some (0, w)"
    and "offset < zbd_sectors dev \<Longrightarrow>
         zbc_pwritev_rounds drv dev iov (zbd_sectors dev - offset) (zbd_max_rw_sectors dev)
           w offset 0 \<Longrightarrow>
         \<exists>w'. zbc_do_pwritev h drv dev w iov offset
                = Some (int (unat (zbd_sectors dev - offset)), w')
              \<and> sectors_transferred (calls w')
                  = sectors_transferred (calls w) + int (unat (zbd_sectors dev - offset))"
proof -
  note facts = clamp_facts [OF size beyond nowrap]
  show "zbc_do_pwritev h drv dev w iov offset = Some (0, w)" if "zbd_sectors dev \<le> offset"
    using that nt aligned facts(1,2) by (simp add: zbc_do_pwritev_def Let_def)
  show "\<exists>w'. zbc_do_pwritev h drv dev w iov offset
                = Some (int (unat (zbd_sectors dev - offset)), w')
              \<and> sectors_transferred (calls w')
                  = sectors_transferred (calls w) + int (unat (zbd_sectors dev - offset))"
    if inside: "offset < zbd_sectors dev"
      and rounds: "zbc_pwritev_rounds drv dev iov (zbd_sectors dev - offset)
                     (zbd_max_rw_sectors dev) w offset 0"
  proof -
    have "zbc_do_pwritev h drv dev w iov offset
            = zbc_do_pwritev_loop drv dev iov (zbd_sectors dev - offset) (zbd_max_rw_sectors dev)
                w offset 0"
    proof -
      from inside have "\<not> zbd_sectors dev \<le> offset" by (simp add: not_le)
      then show ?thesis
        using nt aligned facts(1,2) facts(3) [OF inside]
        by (simp add: zbc_do_pwritev_def Let_def)
    qed
    moreover have "unat (zbd_sectors dev - offset) < 2 ^ 63"
      using facts(4) [OF inside] size by simp
    then have "\<exists>w'. zbc_do_pwritev_loop drv dev iov (zbd_sectors dev - offset)
                          (zbd_max_rw_sectors dev) w offset 0
                        = Some (int (unat (zbd_sectors dev - offset)), w')
                    \<and> sectors_transferred (calls w')
                        = sectors_transferred (calls w)
                          + int (unat (zbd_sectors dev - offset) - unat (0 :: 64 word))"
      by (intro zbc_do_pwritev_loop_rounds [OF rounds]) simp_all
    ultimately show ?thesis by simp
  qed
qed

lemma sample_rw_rounds:
  "zbc_preadv_rounds (sample_drv sample_zones 3) sample_dev [\<lparr>iov_base = 0, iov_len = 8\<rparr>]
     (zbd_sectors sample_dev - 2044) (zbd_max_rw_sectors sample_dev) sample_world 2044 0"
  "zbc_pwritev_rounds (sample_drv sample_zones 3) sample_dev
     [\<lparr>iov_base = 0, iov_len = 8\<rparr>, \<lparr>iov_base = 4096, iov_len = 8\<rparr>]
     (zbd_sectors sample_dev - 2040) (zbd_max_rw_sectors sample_dev) sample_world 2040 0"
  by code_simp+

text \<open>
  C2, as stated, fails: the alignment of the count and of the offset is checked before
  the count is clamped. The sample device with logical blocks of 4096 bytes has 2048
  sectors; a read of 8 sectors at sector 2044, which is capacity minus 4, runs past the
  end of the device, and it returns \<open>- EINVAL\<close> without a driver call, not 4.
\<close>

theorem zbc_pread_clamp_counterexample:
  "zbd_test_mode (sample_dev\<lparr>zbd_lblock_size := 4096\<rparr>) = False
   \<and> zbd_sectors (sample_dev\<lparr>zbd_lblock_size := 4096\<rparr>) - 4 = 2044
   \<and> unat (zbd_sectors (sample_dev\<lparr>zbd_lblock_size := 4096\<rparr>)) < unat (2044 :: 64 word) + 8
   \<and> zbc_pread sample_env (sample_drv sample_zones 16) (sample_dev\<lparr>zbd_lblock_size := 4096\<rparr>)
        sample_world 0 8 2044 = Some (- EINVAL, sample_world)
   \<and> - EINVAL \<noteq> 4"
  by (simp add: sample_dev_def zbc_pread_def zbc_do_preadv_def zbc_iov_count_def SSIZE_MAX_def
      zbc_dev_sect_laligned_def EINVAL_def Let_def)

text \<open>
  C2, amended. \<^verbatim>\<open>zbc_pread\<close> and \<^verbatim>\<open>zbc_pwrite\<close> are \<^verbatim>\<open>zbc_preadv\<close> and \<^verbatim>\<open>zbc_pwritev\<close> on a
  vector of one entry. For a vector of at least one entry on a device that is not in
  test mode, whose total byte count fits \<^verbatim>\<open>ssize_t\<close> and whose sector offset plus total
  sector count exceeds the capacity without wrapping around in 64 bits, a read whose
  count and offset are aligned on the logical block, and a write whose count and
  offset are aligned on the physical block, is clamped to capacity minus offset: with
  the offset at or past the capacity it returns 0 and leaves the world unchanged, so
  the driver is not called; with the offset below the capacity, when every round of
  the operation gets from the driver at least one sector and at most the sectors asked
  for in that round, it returns capacity minus offset, and the driver rounds it adds to
  the record transfer exactly that many sectors.
\<close>

theorem zbc_rw_clamped:
  assumes "\<not> zbd_test_mode dev" and "iov \<noteq> []"
    and "512 * iov_total iov < 2 ^ 63"
    and "unat (zbd_sectors dev) < unat offset + iov_total iov"
    and "unat offset + iov_total iov < 2 ^ 64"
  shows "zbc_pread h drv dev w buf n offset
           = zbc_preadv h drv dev w (Some [\<lparr>iov_base = buf, iov_len = n\<rparr>]) offset
       \<and> zbc_pwrite h drv dev w buf n offset
           = zbc_pwritev h drv dev w (Some [\<lparr>iov_base = buf, iov_len = n\<rparr>]) offset
       \<and> (zbc_dev_sect_laligned dev (zbc_iov_count iov) \<and> zbc_dev_sect_laligned dev offset \<longrightarrow>
            (zbd_sectors dev \<le> offset \<longrightarrow>
               zbc_preadv h drv dev w (Some iov) offset = Some (0, w))
          \<and> (offset < zbd_sectors dev
               \<and> zbc_preadv_rounds drv dev iov (zbd_sectors dev - offset)
                   (zbd_max_rw_sectors dev) w offset 0 \<longrightarrow>
               (\<exists>w'. zbc_preadv h drv dev w (Some iov) offset
                        = Some (int (unat (zbd_sectors dev - offset)), w')
                   \<and> sectors_transferred (calls w')
                       = sectors_transferred (calls w) + int (unat (zbd_sectors dev - offset)))))
       \<and> (zbc_dev_sect_paligned dev (zbc_iov_count iov) \<and> zbc_dev_sect_paligned dev offset \<longrightarrow>
            (zbd_sectors dev \<le> offset \<longrightarrow>
               zbc_pwritev h drv dev w (Some iov) offset = Some (0, w))
          \<and> (offset < zbd_sectors dev
               \<and> zbc_pwritev_rounds drv dev iov (zbd_sectors dev - offset)
                   (zbd_max_rw_sectors dev) w offset 0 \<longrightarrow>
               (\<exists>w'. zbc_pwritev h drv dev w (Some iov) offset
                        = Some (int (unat (zbd_sectors dev - offset)), w')
                   \<and> sectors_transferred (calls w')
                       = sectors_transferred (calls w) + int (unat (zbd_sectors dev - offset)))))"
proof -
  have one: "zbc_pread h drv dev w buf n offset
               = zbc_preadv h drv dev w (Some [\<lparr>iov_base = buf, iov_len = n\<rparr>]) offset"
      "zbc_pwrite h drv dev w buf n offset
               = zbc_pwritev h drv dev w (Some [\<lparr>iov_base = buf, iov_len = n\<rparr>]) offset"
    by (simp_all add: zbc_pread_def zbc_preadv_def zbc_pwrite_def zbc_pwritev_def)
  have rd: "zbc_preadv h drv dev w (Some iov) offset = zbc_do_preadv h drv dev w iov offset"
    and wr: "zbc_pwritev h drv dev w (Some iov) offset = zbc_do_pwritev h drv dev w iov offset"
    using assms(2) by (simp_all add: zbc_preadv_def zbc_pwritev_def)
  note reads = zbc_do_preadv_clamped [OF assms(1,3,4,5)]
  note writes = zbc_do_pwritev_clamped [OF assms(1,3,4,5)]
  show ?thesis
    unfolding rd wr using one reads writes by blast
qed

text \<open>
  C2, amended, on the sample device of 2048 sectors with logical blocks of 512 and
  physical blocks of 4096 bytes, behind a driver that transfers at most 3 sectors in a
  round: a read of 8 sectors at sector 2044 returns 4, a vectored write of 8 and 8
  sectors at sector 2040 returns 8, and a read of 8 sectors at sector 2048 returns 0
  without a driver call.
\<close>

theorem zbc_rw_clamped_witness:
  "(\<exists>w'. zbc_pread sample_env (sample_drv sample_zones 3) sample_dev sample_world 0 8 2044
            = Some (4, w')
        \<and> sectors_transferred (calls w') = 4)
   \<and> (\<exists>w'. zbc_pwritev sample_env (sample_drv sample_zones 3) sample_dev sample_world
              (Some [\<lparr>iov_base = 0, iov_len = 8\<rparr>, \<lparr>iov_base = 4096, iov_len = 8\<rparr>]) 2040
            = Some (8, w')
        \<and> sectors_transferred (calls w') = 8)
   \<and> zbc_pread sample_env (sample_drv sample_zones 3) sample_dev sample_world 0 8 2048
       = Some (0, sample_world)"
proof -
  have log: "sectors_transferred (calls sample_world) = 0"
    by (simp add: sample_world_def)
  have rest: "zbd_sectors sample_dev - 2044 = 4" "zbd_sectors sample_dev - 2040 = 8"
    by (simp_all add: sample_dev_def)
  show ?thesis
    using zbc_rw_clamped [where dev = sample_dev and iov = "[\<lparr>iov_base = 0, iov_len = 8\<rparr>]"
            and offset = 2044 and h = sample_env and drv = "sample_drv sample_zones 3"
            and w = sample_world and buf = 0 and n = 8]
          zbc_rw_clamped [where dev = sample_dev
            and iov = "[\<lparr>iov_base = 0, iov_len = 8\<rparr>, \<lparr>iov_base = 4096, iov_len = 8\<rparr>]"
            and offset = 2040 and h = sample_env and drv = "sample_drv sample_zones 3"
            and w = sample_world]
          zbc_rw_clamped [where dev = sample_dev and iov = "[\<lparr>iov_base = 0, iov_len = 8\<rparr>]"
            and offset = 2048 and h = sample_env and drv = "sample_drv sample_zones 3"
            and w = sample_world and buf = 0 and n = 8]
          sample_rw_rounds
    by (simp add: log rest sample_dev_facts iov_total_def zbc_iov_count_def
        zbc_dev_sect_laligned_def zbc_dev_sect_paligned_def)
qed

section \<open>Opening a device: the order of the probes\<close>

text \<open>
  C4, as stated, fails: in a build without \<^verbatim>\<open>HAVE_LINUX_BLKZONED_H\<close> an empty driver
  mask does not allow the block driver. It is not probed, although it would accept the
  device, and the handle gets the SCSI driver.
\<close>

theorem zbc_open_empty_mask_counterexample:
  "(0 :: 32 word) AND ZBC_O_DRV_MASK (sample_env\<lparr>HAVE_LINUX_BLKZONED_H := False\<rparr>) = 0
   \<and> fst (fst (call_open (sample_tbl (\<lambda>d. 0)) Zbc_block_drv sample_world ''/dev/sdz'' 0)) = 0
   \<and> zbc_open (sample_env\<lparr>HAVE_LINUX_BLKZONED_H := False\<rparr>) (sample_tbl (\<lambda>d. 0)) sample_world
        ''/dev/sdz'' 0
      = ((0, Some (sample_dev\<lparr>zbd_filename := ''/dev/sdz'', zbd_drv := Some Zbc_scsi_drv\<rparr>)),
         \<lparr>drv_state = 1, calls = [Call_open Zbc_scsi_drv ''/dev/sdz'' 0 0]\<rparr>)"
  by (simp add: zbc_open_def sample_env_open zbc_drv_list_def sample_tbl_flag sample_tbl_open
      sample_world_def Let_def)

lemma zbc_open_loop_declined:
  "zbc_open_declined tbl pre allowed_drv path flags w = Some w1 \<Longrightarrow>
   flag (tbl d) AND allowed_drv \<noteq> 0 \<Longrightarrow>
   call_open tbl d w1 path flags = ((ret, dev), w2) \<Longrightarrow> ret \<noteq> - ENXIO \<Longrightarrow>
   zbc_open_loop tbl (pre @ d # post) allowed_drv path flags ret0 w
     = ((ret, if ret = 0 then Some (dev\<lparr>zbd_drv := Some d\<rparr>) else None), w2)"
proof (induction pre arbitrary: w ret0)
  case Nil
  then show ?case by (simp add: Let_def)
next
  case (Cons a pre)
  then show ?case by (simp add: Let_def ENXIO_def split: if_splits)
qed

text \<open>
  C4, amended. Once the path is resolved, \<^verbatim>\<open>zbc_open\<close> goes through the drivers in the
  order block, SCSI, ATA, fake. A driver is passed over without being invoked when its
  flag is not in the allowed set: the driver bits of the flags, or the whole mask when
  these are empty, less the bit of the block driver in a build without
  \<^verbatim>\<open>HAVE_LINUX_BLKZONED_H\<close>. When all the drivers before \<open>d\<close> are passed over or answer
  \<open>- ENXIO\<close>, and \<open>d\<close> is allowed and answers otherwise, its status is returned, no
  further driver is invoked, and on the status 0 the handle carries \<open>d\<close> as its driver.
\<close>

theorem zbc_open_probe_order:
  assumes path: "realpath h filename = Inr path"
    and order: "zbc_drv_list = pre @ d # post"
    and declined: "zbc_open_declined tbl pre (zbc_open_allowed_drv h flags) path flags w = Some w1"
    and allowed: "flag (tbl d) AND zbc_open_allowed_drv h flags \<noteq> 0"
    and probe: "call_open tbl d w1 path flags = ((ret, dev), w2)"
    and answer: "ret \<noteq> - ENXIO"
  shows "zbc_open h tbl w filename flags
           = ((ret, if ret = 0 then Some (dev\<lparr>zbd_drv := Some d\<rparr>) else None), w2)
       \<and> zbc_drv_list = [Zbc_block_drv, Zbc_scsi_drv, Zbc_ata_drv, Zbc_fake_drv]
       \<and> zbc_open_allowed_drv h flags
           = (let m = (if flags AND ZBC_O_DRV_MASK h = 0 then ZBC_O_DRV_MASK h
                       else flags AND ZBC_O_DRV_MASK h)
              in if HAVE_LINUX_BLKZONED_H h then m else m AND NOT (ZBC_O_DRV_BLOCK h))"
proof -
  have "zbc_open h tbl w filename flags
           = ((ret, if ret = 0 then Some (dev\<lparr>zbd_drv := Some d\<rparr>) else None), w2)"
    unfolding zbc_open_def path order
    using zbc_open_loop_declined [OF declined allowed probe answer] by simp
  then show ?thesis
    by (simp add: zbc_drv_list_def zbc_open_allowed_drv_def Let_def)
qed

text \<open>
  C4, amended, on sample driver tables: the block and SCSI drivers decline and the ATA
  driver accepts; the block driver is excluded by the mask and the SCSI driver fails
  with \<open>- EIO\<close>.
\<close>

theorem zbc_open_probe_order_witness:
  "zbc_open sample_env
     (sample_tbl (\<lambda>d. case d of Zbc_block_drv \<Rightarrow> - ENXIO | Zbc_scsi_drv \<Rightarrow> - ENXIO | _ \<Rightarrow> 0))
     sample_world ''/dev/sdz'' 0
   = ((0, Some (sample_dev\<lparr>zbd_filename := ''/dev/sdz'', zbd_drv := Some Zbc_ata_drv\<rparr>)),
      \<lparr>drv_state = 3,
       calls = [Call_open Zbc_block_drv ''/dev/sdz'' 0 (- ENXIO),
                Call_open Zbc_scsi_drv ''/dev/sdz'' 0 (- ENXIO),
                Call_open Zbc_ata_drv ''/dev/sdz'' 0 0]\<rparr>)
   \<and> zbc_open sample_env
     (sample_tbl (\<lambda>d. case d of Zbc_block_drv \<Rightarrow> - ENXIO | Zbc_scsi_drv \<Rightarrow> - EIO | _ \<Rightarrow> 0))
     sample_world ''/dev/sdz'' 0x0E000000
   = ((- EIO, None),
      \<lparr>drv_state = 1, calls = [Call_open Zbc_scsi_drv ''/dev/sdz'' 0x0E000000 (- EIO)]\<rparr>)"
proof -
  let ?st1 = "\<lambda>d. case d of Zbc_block_drv \<Rightarrow> - ENXIO | Zbc_scsi_drv \<Rightarrow> - ENXIO | _ \<Rightarrow> 0"
  let ?st2 = "\<lambda>d. case d of Zbc_block_drv \<Rightarrow> - ENXIO | Zbc_scsi_drv \<Rightarrow> - EIO | _ \<Rightarrow> 0"
  have o1: "zbc_drv_list = [Zbc_block_drv, Zbc_scsi_drv] @ Zbc_ata_drv # [Zbc_fake_drv]"
    and o2: "zbc_drv_list = [Zbc_block_drv] @ Zbc_scsi_drv # [Zbc_ata_drv, Zbc_fake_drv]"
    by (simp_all add: zbc_drv_list_def)
  have d1: "zbc_open_declined (sample_tbl ?st1) [Zbc_block_drv, Zbc_scsi_drv]
              (zbc_open_allowed_drv sample_env 0) ''/dev/sdz'' 0 sample_world
            = Some \<lparr>drv_state = 2,
                calls = [Call_open Zbc_block_drv ''/dev/sdz'' 0 (- ENXIO),
                         Call_open Zbc_scsi_drv ''/dev/sdz'' 0 (- ENXIO)]\<rparr>"
    by (simp add: sample_env_open sample_tbl_flag sample_tbl_open sample_world_def)
  have d2: "zbc_open_declined (sample_tbl ?st2) [Zbc_block_drv]
              (zbc_open_allowed_drv sample_env 0x0E000000) ''/dev/sdz'' 0x0E000000 sample_world
            = Some sample_world"
    by (simp add: sample_env_open sample_tbl_flag)
  have a1: "flag (sample_tbl ?st1 Zbc_ata_drv) AND zbc_open_allowed_drv sample_env 0 \<noteq> 0"
    and a2: "flag (sample_tbl ?st2 Zbc_scsi_drv) AND zbc_open_allowed_drv sample_env 0x0E000000 \<noteq> 0"
    by (simp_all add: sample_env_open sample_tbl_flag)
  have p1: "call_open (sample_tbl ?st1) Zbc_ata_drv
              \<lparr>drv_state = 2,
                calls = [Call_open Zbc_block_drv ''/dev/sdz'' 0 (- ENXIO),
                         Call_open Zbc_scsi_drv ''/dev/sdz'' 0 (- ENXIO)]\<rparr> ''/dev/sdz'' 0
            = ((0, sample_dev\<lparr>zbd_filename := ''/dev/sdz''\<rparr>),
               \<lparr>drv_state = 3,
                calls = [Call_open Zbc_block_drv ''/dev/sdz'' 0 (- ENXIO),
                         Call_open Zbc_scsi_drv ''/dev/sdz'' 0 (- ENXIO),
                         Call_open Zbc_ata_drv ''/dev/sdz'' 0 0]\<rparr>)"
    by (simp add: sample_tbl_open)
  have p2: "call_open (sample_tbl ?st2) Zbc_scsi_drv sample_world ''/dev/sdz'' 0x0E000000
            = ((- EIO, sample_dev\<lparr>zbd_filename := ''/dev/sdz''\<rparr>),
               \<lparr>drv_state = 1, calls = [Call_open Zbc_scsi_drv ''/dev/sdz'' 0x0E000000 (- EIO)]\<rparr>)"
    by (simp add: sample_tbl_open sample_world_def)
  have n1: "(0 :: int) \<noteq> - ENXIO" and n2: "- EIO \<noteq> - ENXIO"
    by (simp_all add: ENXIO_def EIO_def)
  show ?thesis
    using zbc_open_probe_order [OF sample_env_open(1) o1 d1 a1 p1 n1]
          zbc_open_probe_order [OF sample_env_open(1) o2 d2 a2 p2 n2]
    by (simp add: EIO_def)
qed

end
